theory Spec2Isabelle
  imports Main "HOL-Library.Word"
begin

unbundle bit_operations_syntax

section \<open>Data model of the ISAC D-channel core (isac.c)\<close>

type_synonym u8 = "8 word"
type_synonym u32 = "32 word"

text \<open>
  The headers isac.h, hisax_dch.h, hisaxl1.h, helper.h and debug.h are not part of the
  sources at hand. Register names, flag bits, event tags and debug bits are only ever
  used by name in isac.c, so they are enumerations here. The numeric constants that isac.c
  computes with are the fields of the record \<open>hdr\<close>, a parameter of every function
  that uses one.
\<close>

datatype isac_reg =
    ISAC_CMDR | ISAC_RSTA | ISAC_RBCL | ISAC_RBCH | ISAC_STAR
  | ISAC_CIR0 | ISAC_CIR1 | ISAC_CIX0 | ISAC_EXIR
  | ISAC_MOSR | ISAC_MOCR | ISAC_MOR0 | ISAC_MOR1 | ISAC_MOX0 | ISAC_MOX1
  | ISAC_SPCR | ISAC_ADF1

datatype dflag =
    FLG_TX_BUSY | FLG_TX_NEXT | FLG_DBUSY_TIMER | FLG_L1_DBUSY | HW_IOM1 | HW_ARCOFI

datatype d_event =
    D_RCVBUFREADY | D_XMTBUFREADY | D_CLEARBUSY | D_L1STATECHANGE
  | D_RX_MON0 | D_RX_MON1 | D_TX_MON0 | D_TX_MON1

text \<open>Bits of \<open>dch->debug\<close>; \<open>L1_DEB_OTHER\<close> stands for any bit isac.c does not test by name.\<close>

datatype deb =
    L1_DEB_ISAC | L1_DEB_ISAC_FIFO | L1_DEB_WARN | L1_DEB_MONITOR | L1_DEB_OTHER

datatype arcofi_event = ARCOFI_RX_END | ARCOFI_TX_END

text \<open>
  A frame buffer handed in by the upper layer: the header read through
  \<open>HISAX_HEAD_P\<close> (primitive and parameter) and the payload (\<open>skb->data\<close>,
  \<open>skb->len\<close> its length).
\<close>

record sk_buff =
  hh_prim :: u32
  hh_dinfo :: u32
  skb_data :: "u8 list"

text \<open>
  Everything the code does to the outside (bus accesses through the function pointers of
  the channel, the lock, the timer, the deferred-event scheduler, calls into the upper
  layer, buffer releases, log lines) is recorded in order in the channel's \<open>trace\<close>.
  Log lines carry their format string only.
\<close>

datatype io =
    ReadReg isac_reg
  | WriteReg isac_reg u8
  | ReadFifo nat
  | WriteFifo "u8 list"
  | Lock
  | TryLock bool
  | Unlock
  | DelTimer
  | InitTimer
  | AddTimer u32
  | SchedEvent d_event
  | IfLink nat u32 u32
  | IfNewhead u32 u32 sk_buff
  | FreeSkb sk_buff
  | FreeRx "u8 list"
  | ArcofiFsm arcofi_event
  | Log string

text \<open>\<open>isac_chip_t\<close>, reached through \<open>dch->hw\<close>: the monitor channel state.\<close>

record isac_chip =
  mon_tx :: "u8 list option"
  mon_rx :: "u8 list option"
  mon_txp :: int
  mon_txc :: int
  mon_rxp :: int
  mocr :: u8

text \<open>
  \<open>dchannel_t\<close>. The fields from \<open>regs\<close> on are the environment of one call: what
  the read accessors return, whether the next allocation succeeds, whether the non-blocking
  lock attempt finds the lock taken, the clock, and what the upper layer returns from
  \<open>if_newhead\<close>. The chain of upper interfaces walked by \<open>isac_new_ph\<close> is
  \<open>inst_up\<close> followed by \<open>inst_up_next\<close>.
\<close>

record dchannel =
  DFlags :: "dflag set"
  ph_state :: u32
  debug :: "deb set"
  rx_skb :: "u8 list option"
  next_skb :: "sk_buff option"
  tx_buf :: "u8 list"
  tx_idx :: int
  tx_len :: int
  err_crc :: int
  err_tx :: int
  err_rx :: int
  hw :: isac_chip
  dbusytimer_expires :: u32
  dbusytimer_pending :: bool
  event :: "d_event set"
  rqueue :: "u8 list list"
  inst_up :: nat
  inst_up_next :: "nat list"
  regs :: "isac_reg \<Rightarrow> u8"
  fifo_in :: "nat \<Rightarrow> u8"
  fifo_pos :: nat
  alloc_ok :: "nat \<Rightarrow> bool"
  alloc_cnt :: nat
  lock_taken :: bool
  jiffies :: u32
  newhead_ret :: int
  trace :: "io list"

text \<open>
  The constants of the absent headers that isac.c computes with, and whether the build
  defines \<open>ERROR_STATISTIC\<close> (the three error counters are updated under
  \<open>#ifdef ERROR_STATISTIC\<close> only).
\<close>

record hdr =
  MAX_DFRAME_LEN_L1 :: nat
  MAX_MON_FRAME :: nat
  HZ :: nat
  ERROR_STATISTIC :: bool
  ISAC_RBCH_XAC :: u8
  ISAC_CMD_TIM :: u32
  ISAC_CMD_RS :: u32
  ISAC_CMD_AR8 :: u32
  ISAC_CMD_AR10 :: u32
  ISAC_CMD_DUI :: u32
  ISAC_IND_RS :: u32
  ISAC_IND_EI :: u32
  ISAC_IND_DID :: u32
  ISAC_IND_DR :: u32
  ISAC_IND_PU :: u32
  ISAC_IND_RSY :: u32
  ISAC_IND_ARD :: u32
  ISAC_IND_AI8 :: u32
  ISAC_IND_AI10 :: u32
  PH_DATA_REQ :: u32
  PH_DATA_CNF :: u32
  PH_SIGNAL :: u32
  PH_CONTROL :: u32
  REQUEST :: u32
  INDICATION :: u32
  CONFIRM :: u32
  DINFO_SKB :: u32
  HW_RESET :: u32
  HW_POWERUP :: u32
  HW_DEACTIVATE :: u32
  HW_TESTLOOP :: u32
  INFO3_P8 :: u32
  INFO3_P10 :: u32
  ANYSIGNAL :: u32
  INFO2 :: u32
  INFO4_P8 :: u32
  INFO4_P10 :: u32

definition DBUSY_TIMER_VALUE :: nat where
  "DBUSY_TIMER_VALUE = 80"

text \<open>The error numbers of the kernel's errno-base.h.\<close>

definition EBUSY :: int where
  "EBUSY = 16"

definition EINVAL :: int where
  "EINVAL = 22"

section \<open>Kernel and bus primitives\<close>

definition emit :: "io \<Rightarrow> dchannel \<Rightarrow> dchannel" where
  "emit e dch = dch\<lparr>trace := trace dch @ [e]\<rparr>"

definition write_reg :: "isac_reg \<Rightarrow> u8 \<Rightarrow> dchannel \<Rightarrow> dchannel" where
  "write_reg r v dch = emit (WriteReg r v) dch"

definition read_reg :: "isac_reg \<Rightarrow> dchannel \<Rightarrow> u8 \<times> dchannel" where
  "read_reg r dch = (regs dch r, emit (ReadReg r) dch)"

text \<open>\<open>read_fifo\<close> delivers the next \<open>count\<close> bytes of the receive FIFO.\<close>

definition read_fifo :: "nat \<Rightarrow> dchannel \<Rightarrow> u8 list \<times> dchannel" where
  "read_fifo count dch =
     (map (fifo_in dch) [fifo_pos dch ..< fifo_pos dch + count],
      emit (ReadFifo count) (dch\<lparr>fifo_pos := fifo_pos dch + count\<rparr>))"

definition write_fifo :: "u8 list \<Rightarrow> dchannel \<Rightarrow> dchannel" where
  "write_fifo bytes dch = emit (WriteFifo bytes) dch"

definition debugprint :: "string \<Rightarrow> dchannel \<Rightarrow> dchannel" where
  "debugprint msg dch = emit (Log msg) dch"

definition printk :: "string \<Rightarrow> dchannel \<Rightarrow> dchannel" where
  "printk msg dch = emit (Log msg) dch"

definition debug_if :: "bool \<Rightarrow> string \<Rightarrow> dchannel \<Rightarrow> dchannel" where
  "debug_if c msg dch = (if c then debugprint msg dch else dch)"

definition test_bit :: "dflag \<Rightarrow> dchannel \<Rightarrow> bool" where
  "test_bit f dch = (f \<in> DFlags dch)"

definition test_and_set_bit :: "dflag \<Rightarrow> dchannel \<Rightarrow> bool \<times> dchannel" where
  "test_and_set_bit f dch = (f \<in> DFlags dch, dch\<lparr>DFlags := insert f (DFlags dch)\<rparr>)"

definition test_and_clear_bit :: "dflag \<Rightarrow> dchannel \<Rightarrow> bool \<times> dchannel" where
  "test_and_clear_bit f dch = (f \<in> DFlags dch, dch\<lparr>DFlags := DFlags dch - {f}\<rparr>)"

definition test_and_clear_event :: "d_event \<Rightarrow> dchannel \<Rightarrow> bool \<times> dchannel" where
  "test_and_clear_event e dch = (e \<in> event dch, dch\<lparr>event := event dch - {e}\<rparr>)"

definition del_timer :: "dchannel \<Rightarrow> dchannel" where
  "del_timer dch = emit DelTimer (dch\<lparr>dbusytimer_pending := False\<rparr>)"

definition init_timer :: "dchannel \<Rightarrow> dchannel" where
  "init_timer dch = emit InitTimer (dch\<lparr>dbusytimer_pending := False\<rparr>)"

definition add_timer :: "dchannel \<Rightarrow> dchannel" where
  "add_timer dch =
     emit (AddTimer (dbusytimer_expires dch)) (dch\<lparr>dbusytimer_pending := True\<rparr>)"

definition lock :: "dchannel \<Rightarrow> dchannel" where
  "lock dch = emit Lock dch"

text \<open>\<open>inst.lock(data, 1)\<close>: the non-blocking attempt; nonzero (True) when the lock is taken.\<close>

definition trylock :: "dchannel \<Rightarrow> bool \<times> dchannel" where
  "trylock dch = (lock_taken dch, emit (TryLock (\<not> lock_taken dch)) dch)"

definition unlock :: "dchannel \<Rightarrow> dchannel" where
  "unlock dch = emit Unlock dch"

definition skb_queue_tail :: "u8 list \<Rightarrow> dchannel \<Rightarrow> dchannel" where
  "skb_queue_tail skb dch = dch\<lparr>rqueue := rqueue dch @ [skb]\<rparr>"

definition dev_kfree_rx :: "u8 list \<Rightarrow> dchannel \<Rightarrow> dchannel" where
  "dev_kfree_rx skb dch = emit (FreeRx skb) dch"

definition dev_kfree_skb :: "sk_buff \<Rightarrow> dchannel \<Rightarrow> dchannel" where
  "dev_kfree_skb skb dch = emit (FreeSkb skb) dch"

text \<open>
  Modelled from the spec: \<open>dchannel_sched_event\<close> (hisax_dch.h) is absent. The spec has
  the interrupt phase record a pending notification tag in the deferred-event bitmask
  for the bottom half; the call is also recorded in the trace.
\<close>

definition dchannel_sched_event :: "d_event \<Rightarrow> dchannel \<Rightarrow> dchannel" where
  "dchannel_sched_event e dch = emit (SchedEvent e) (dch\<lparr>event := insert e (event dch)\<rparr>)"

text \<open>
  Modelled from the spec: \<open>alloc_uplink_skb\<close> (helper.h) is absent. The spec has it
  allocate an empty receive buffer sized to the maximum D-channel frame, or fail.
\<close>

definition alloc_uplink_skb :: "nat \<Rightarrow> dchannel \<Rightarrow> u8 list option \<times> dchannel" where
  "alloc_uplink_skb n dch =
     (if alloc_ok dch (alloc_cnt dch) then Some [] else None,
      dch\<lparr>alloc_cnt := alloc_cnt dch + 1\<rparr>)"

text \<open>
  \<open>kmalloc(MAX_MON_FRAME, GFP_ATOMIC)\<close>: a buffer of that many bytes or NULL. The bytes
  of a fresh buffer are unspecified in C; they are 0 here, and the code reads none of them
  before writing it.
\<close>

definition kmalloc :: "nat \<Rightarrow> dchannel \<Rightarrow> u8 list option \<times> dchannel" where
  "kmalloc n dch =
     (if alloc_ok dch (alloc_cnt dch) then Some (replicate n 0) else None,
      dch\<lparr>alloc_cnt := alloc_cnt dch + 1\<rparr>)"

text \<open>
  Modelled from the spec: \<open>discard_queue\<close> (helper.h) is absent. The spec has
  deactivation discard all queued receive state: every queued buffer is released and the
  queue is left empty.
\<close>

definition discard_queue :: "dchannel \<Rightarrow> dchannel" where
  "discard_queue dch = (dch\<lparr>rqueue := []\<rparr>)\<lparr>trace := trace dch @ map FreeRx (rqueue dch)\<rparr>"

text \<open>
  \<open>memcpy(dch->tx_buf, skb->data, dch->tx_len)\<close> with \<open>tx_len = skb->len\<close>. Writing
  past the end of the transmit buffer is undefined in C: the result is \<open>None\<close>.
\<close>

definition memcpy_tx :: "u8 list \<Rightarrow> dchannel \<Rightarrow> dchannel option" where
  "memcpy_tx src dch =
     (if length src \<le> length (tx_buf dch)
      then Some (dch\<lparr>tx_buf := src @ drop (length src) (tx_buf dch)\<rparr>)
      else None)"

section \<open>isac.c\<close>

subsection \<open>\<open>ph_command\<close> and the line-state indication\<close>

definition ph_command :: "u32 \<Rightarrow> dchannel \<Rightarrow> dchannel" where
  "ph_command command dch =
     (let dch = debug_if (L1_DEB_ISAC \<in> debug dch) ''ph_command %x'' dch
      in write_reg ISAC_CIX0 (ucast (push_bit 2 command OR 3)) dch)"

text \<open>The loop \<open>while(upif) { if_link(upif, prim, para, 0, NULL, 0); upif = upif->next; }\<close>.\<close>

fun if_link_chain :: "nat list \<Rightarrow> u32 \<Rightarrow> u32 \<Rightarrow> dchannel \<Rightarrow> dchannel" where
  "if_link_chain [] prim para dch = dch"
| "if_link_chain (upif # rest) prim para dch =
     if_link_chain rest prim para (emit (IfLink upif prim para) dch)"

definition isac_new_ph :: "hdr \<Rightarrow> dchannel \<Rightarrow> dchannel" where
  "isac_new_ph K dch =
     (let upif = inst_up dch # inst_up_next dch;
          st = ph_state dch
      in if st = ISAC_IND_RS K \<or> st = ISAC_IND_EI K then
           if_link_chain upif (PH_CONTROL K OR INDICATION K) (HW_RESET K)
             (unlock (ph_command (ISAC_CMD_DUI K) (lock dch)))
         else if st = ISAC_IND_DID K then
           if_link_chain upif (PH_CONTROL K OR CONFIRM K) (HW_DEACTIVATE K) dch
         else if st = ISAC_IND_DR K then
           if_link_chain upif (PH_CONTROL K OR INDICATION K) (HW_DEACTIVATE K) dch
         else if st = ISAC_IND_PU K then
           if_link_chain upif (PH_CONTROL K OR INDICATION K) (HW_POWERUP K) dch
         else if st = ISAC_IND_RSY K then
           if_link_chain upif (PH_SIGNAL K OR INDICATION K) (ANYSIGNAL K) dch
         else if st = ISAC_IND_ARD K then
           if_link_chain upif (PH_SIGNAL K OR INDICATION K) (INFO2 K) dch
         else if st = ISAC_IND_AI8 K then
           if_link_chain upif (PH_SIGNAL K OR INDICATION K) (INFO4_P8 K) dch
         else if st = ISAC_IND_AI10 K then
           if_link_chain upif (PH_SIGNAL K OR INDICATION K) (INFO4_P10 K) dch
         else dch)"

text \<open>\<open>arcofi_fsm\<close> lives in arcofi.c, which is absent: the call is recorded.\<close>

definition arcofi_fsm :: "arcofi_event \<Rightarrow> dchannel \<Rightarrow> dchannel" where
  "arcofi_fsm e dch = emit (ArcofiFsm e) dch"

definition isac_hwbh :: "hdr \<Rightarrow> dchannel \<Rightarrow> dchannel" where
  "isac_hwbh K dch =
     (let dch = (if debug dch \<noteq> {} then printk ''isac_hwbh: event %x'' dch else dch);
          (chg, dch) = test_and_clear_event D_L1STATECHANGE dch;
          dch = (if chg then isac_new_ph K dch else dch)
      in if \<not> test_bit HW_ARCOFI dch then dch
         else
           let (rx, dch) = test_and_clear_event D_RX_MON1 dch;
               dch = (if rx then arcofi_fsm ARCOFI_RX_END dch else dch);
               (tx, dch) = test_and_clear_event D_TX_MON1 dch
           in if tx then arcofi_fsm ARCOFI_TX_END dch else dch)"

subsection \<open>The frame transfer engine\<close>

definition isac_empty_fifo :: "hdr \<Rightarrow> nat \<Rightarrow> dchannel \<Rightarrow> dchannel" where
  "isac_empty_fifo K count dch =
     (let dch = debug_if (L1_DEB_ISAC \<in> debug dch \<and> L1_DEB_ISAC_FIFO \<notin> debug dch)
                  ''isac_empty_fifo'' dch;
          dch = (if rx_skb dch = None
                 then (let (skb, dch) = alloc_uplink_skb (MAX_DFRAME_LEN_L1 K) dch
                       in dch\<lparr>rx_skb := skb\<rparr>)
                 else dch)
      in case rx_skb dch of
           None \<Rightarrow>
             write_reg ISAC_CMDR 0x80 (printk ''HiSax: D receive out of memory'' dch)
         | Some skb \<Rightarrow>
             if MAX_DFRAME_LEN_L1 K \<le> length skb + count then
               write_reg ISAC_CMDR 0x80
                 (debug_if (L1_DEB_WARN \<in> debug dch) ''isac_empty_fifo overrun %d'' dch)
             else
               let (ptr, dch) = read_fifo count dch;
                   dch = dch\<lparr>rx_skb := Some (skb @ ptr)\<rparr>;
                   dch = write_reg ISAC_CMDR 0x80 dch
               in debug_if (L1_DEB_ISAC_FIFO \<in> debug dch) ''isac_empty_fifo cnt %d'' dch)"

text \<open>
  \<open>isac_fill_fifo\<close>. The burst handed to \<open>write_fifo\<close> is read from
  \<open>tx_buf + tx_idx\<close>; reading outside the transmit buffer is undefined in C: \<open>None\<close>.
\<close>

definition isac_fill_fifo :: "hdr \<Rightarrow> dchannel \<Rightarrow> dchannel option" where
  "isac_fill_fifo K dch =
     (let dch = debug_if (L1_DEB_ISAC \<in> debug dch \<and> L1_DEB_ISAC_FIFO \<notin> debug dch)
                  ''isac_fill_fifo'' dch;
          count = tx_len dch - tx_idx dch
      in if count \<le> 0 then Some dch
         else
           let more = (32 < count);
               count = (if 32 < count then 32 else count)
           in if tx_idx dch < 0 \<or> int (length (tx_buf dch)) < tx_idx dch + count then None
              else
                let ptr = take (nat count) (drop (nat (tx_idx dch)) (tx_buf dch));
                    dch = dch\<lparr>tx_idx := tx_idx dch + count\<rparr>;
                    dch = write_fifo ptr dch;
                    dch = write_reg ISAC_CMDR (if more then 0x8 else 0xa) dch;
                    (armed, dch) = test_and_set_bit FLG_DBUSY_TIMER dch;
                    dch = (if armed
                           then del_timer (debugprint ''isac_fill_fifo dbusytimer running'' dch)
                           else dch);
                    dch = init_timer dch;
                    dch = dch\<lparr>dbusytimer_expires :=
                            jiffies dch + of_nat ((DBUSY_TIMER_VALUE * HZ K) div 1000)\<rparr>;
                    dch = add_timer dch
                in Some (debug_if (L1_DEB_ISAC_FIFO \<in> debug dch) ''isac_fill_fifo cnt %d'' dch))"

subsection \<open>\<open>ISAC_interrupt\<close>, one definition per status bit\<close>

text \<open>
  The four lines that stop the busy-recovery timer and clear the link-busy flag; they stand
  verbatim at lines 246 to 249 (XPR), 305 to 308 (XDU) and 520 to 523 (deactivation):
  \<open>if (test_and_clear_bit(FLG_DBUSY_TIMER, ...)) del_timer(...);
  if (test_and_clear_bit(FLG_L1_DBUSY, ...)) dchannel_sched_event(dch, D_CLEARBUSY);\<close>
\<close>

definition dbusy_stop :: "dchannel \<Rightarrow> dchannel" where
  "dbusy_stop dch =
     (let (armed, dch) = test_and_clear_bit FLG_DBUSY_TIMER dch;
          dch = (if armed then del_timer dch else dch);
          (busy, dch) = test_and_clear_bit FLG_L1_DBUSY dch
      in if busy then dchannel_sched_event D_CLEARBUSY dch else dch)"

text \<open>RME, status bit 0x80 (lines 206 to 236).\<close>

definition isac_rme :: "hdr \<Rightarrow> dchannel \<Rightarrow> dchannel" where
  "isac_rme K dch =
     (let (exval, dch) = read_reg ISAC_RSTA dch;
          dch =
            (if exval AND 0x70 \<noteq> 0x20 then
               let dch = (if exval AND 0x40 \<noteq> 0 then
                            (let dch = debug_if (L1_DEB_WARN \<in> debug dch) ''ISAC RDO'' dch
                             in if ERROR_STATISTIC K then dch\<lparr>err_rx := err_rx dch + 1\<rparr> else dch)
                          else dch);
                   dch = (if exval AND 0x20 = 0 then
                            (let dch = debug_if (L1_DEB_WARN \<in> debug dch) ''ISAC CRC error'' dch
                             in if ERROR_STATISTIC K then dch\<lparr>err_crc := err_crc dch + 1\<rparr> else dch)
                          else dch);
                   dch = write_reg ISAC_CMDR 0x80 dch
               in (case rx_skb dch of Some skb \<Rightarrow> dev_kfree_rx skb dch | None \<Rightarrow> dch)
             else
               let (v, dch) = read_reg ISAC_RBCL dch;
                   count = unat (v AND 0x1f);
                   count = (if count = 0 then 32 else count);
                   dch = isac_empty_fifo K count dch
               in (case rx_skb dch of Some skb \<Rightarrow> skb_queue_tail skb dch | None \<Rightarrow> dch));
          dch = dch\<lparr>rx_skb := None\<rparr>
      in dchannel_sched_event D_RCVBUFREADY dch)"

text \<open>XPR, status bit 0x10 (lines 245 to 268).\<close>

definition isac_xpr :: "hdr \<Rightarrow> dchannel \<Rightarrow> dchannel option" where
  "isac_xpr K dch =
     (let dch = dbusy_stop dch
      in if tx_idx dch < tx_len dch then isac_fill_fifo K dch
         else
           let (nxt, dch) = test_and_clear_bit FLG_TX_NEXT dch
           in if nxt then
                (case next_skb dch of
                   Some skb \<Rightarrow>
                     Option.bind
                       (memcpy_tx (skb_data skb) (dch\<lparr>tx_len := int (length (skb_data skb))\<rparr>))
                       (\<lambda>dch. map_option (dchannel_sched_event D_XMTBUFREADY)
                                 (isac_fill_fifo K (dch\<lparr>tx_idx := 0\<rparr>)))
                 | None \<Rightarrow>
                     Some (snd (test_and_clear_bit FLG_TX_BUSY
                                  (printk ''isac tx irq TX_NEXT without skb'' dch))))
              else Some (snd (test_and_clear_bit FLG_TX_BUSY dch)))"

text \<open>CISQ, status bit 0x04 (lines 269 to 285).\<close>

definition isac_cisq :: "dchannel \<Rightarrow> dchannel" where
  "isac_cisq dch =
     (let (exval, dch) = read_reg ISAC_CIR0 dch;
          dch = debug_if (L1_DEB_ISAC \<in> debug dch) ''ISAC CIR0 %02X'' dch;
          dch = (if exval AND 2 \<noteq> 0 then
                   let dch = dch\<lparr>ph_state := ucast (drop_bit 2 exval AND 0xf)\<rparr>;
                       dch = debug_if (L1_DEB_ISAC \<in> debug dch) ''ph_state change %x'' dch
                   in dchannel_sched_event D_L1STATECHANGE dch
                 else dch)
      in if exval AND 1 \<noteq> 0 then
           let (exval, dch) = read_reg ISAC_CIR1 dch
           in debug_if (L1_DEB_ISAC \<in> debug dch) ''ISAC CIR1 %02X'' dch
         else dch)"

text \<open>XDU, extended-status bit 0x40 (lines 299 to 330).\<close>

definition isac_xdu :: "hdr \<Rightarrow> dchannel \<Rightarrow> dchannel option" where
  "isac_xdu K dch =
     (let dch = debugprint ''ISAC XDU'' dch;
          dch = printk ''HiSax: ISAC XDU'' dch;
          dch = (if ERROR_STATISTIC K then dch\<lparr>err_tx := err_tx dch + 1\<rparr> else dch);
          dch = dbusy_stop dch
      in if test_bit FLG_TX_BUSY dch then
           isac_fill_fifo K (dch\<lparr>tx_idx := 0\<rparr>)
         else
           let dch = printk ''HiSax: ISAC XDU no TX_BUSY'' dch;
               dch = debugprint ''ISAC XDU no TX_BUSY'' dch;
               (nxt, dch) = test_and_clear_bit FLG_TX_NEXT dch
           in if nxt then
                (case next_skb dch of
                   Some skb \<Rightarrow>
                     Option.bind
                       (memcpy_tx (skb_data skb) (dch\<lparr>tx_len := int (length (skb_data skb))\<rparr>))
                       (\<lambda>dch. map_option (dchannel_sched_event D_XMTBUFREADY)
                                 (isac_fill_fifo K (dch\<lparr>tx_idx := 0\<rparr>)))
                 | None \<Rightarrow> Some (printk ''isac xdu irq TX_NEXT without skb'' dch))
              else Some dch)"

text \<open>
  MOS, extended-status bit 0x04 (lines 331 to 455). \<open>mocr_upd\<close> is the read-modify-write
  of the shadow control value \<open>isac->mocr\<close>. An index outside the receive or transmit
  buffer of the monitor channel is undefined in C: \<open>None\<close>.
\<close>

definition mocr_upd :: "(u8 \<Rightarrow> u8) \<Rightarrow> dchannel \<Rightarrow> dchannel" where
  "mocr_upd f dch = dch\<lparr>hw := (hw dch)\<lparr>mocr := f (mocr (hw dch))\<rparr>\<rparr>"

definition write_mocr :: "dchannel \<Rightarrow> dchannel" where
  "write_mocr dch = write_reg ISAC_MOCR (mocr (hw dch)) dch"

text \<open>
  The lazy allocation of the monitor receive buffer, the same in both receive blocks:
  \<open>if (!isac->mon_rx) { if (!(isac->mon_rx = kmalloc(...))) ... else isac->mon_rxp = 0; }\<close>.
  The caller tests \<open>mon_rx\<close> afterwards: still \<open>None\<close> means the allocation failed.
\<close>

definition mon_rx_alloc :: "hdr \<Rightarrow> dchannel \<Rightarrow> dchannel" where
  "mon_rx_alloc K dch =
     (if mon_rx (hw dch) = None then
        (let (buf, dch) = kmalloc (MAX_MON_FRAME K) dch
         in dch\<lparr>hw := (hw dch)\<lparr>mon_rx := buf,
                                 mon_rxp := (if buf = None then mon_rxp (hw dch) else 0)\<rparr>\<rparr>)
      else dch)"

text \<open>
  \<open>isac->mon_rx[isac->mon_rxp++] = dch->read_reg(dch->inst.data, r)\<close> and the debug line.
\<close>

definition mon_rx_store :: "isac_reg \<Rightarrow> string \<Rightarrow> u8 list \<Rightarrow> dchannel \<Rightarrow> dchannel option" where
  "mon_rx_store r msg buf dch =
     (if mon_rxp (hw dch) < 0 \<or> length buf \<le> nat (mon_rxp (hw dch)) then None
      else
        let (b, dch) = read_reg r dch;
            dch = dch\<lparr>hw := (hw dch)\<lparr>mon_rx := Some (buf[nat (mon_rxp (hw dch)) := b]),
                                    mon_rxp := mon_rxp (hw dch) + 1\<rparr>\<rparr>
        in Some (debug_if (L1_DEB_MONITOR \<in> debug dch) msg dch))"

text \<open>Monitor status bit 0x08: a byte received on channel 0 (lines 336 to 364).\<close>

definition mon_rx0 :: "hdr \<Rightarrow> dchannel \<Rightarrow> dchannel option" where
  "mon_rx0 K dch =
     (let dch = mon_rx_alloc K dch
      in case mon_rx (hw dch) of
           None \<Rightarrow>
             let dch = debug_if (L1_DEB_WARN \<in> debug dch) ''ISAC MON RX out of memory!'' dch;
                 dch = mocr_upd (\<lambda>m. m AND 0xf0) dch;
                 dch = mocr_upd (\<lambda>m. m OR 0x0a) dch
             in Some (write_mocr dch)
         | Some buf \<Rightarrow>
             if int (MAX_MON_FRAME K) \<le> mon_rxp (hw dch) then
               let dch = mocr_upd (\<lambda>m. m AND 0xf0) dch;
                   dch = mocr_upd (\<lambda>m. m OR 0x0a) dch;
                   dch = write_mocr dch;
                   dch = dch\<lparr>hw := (hw dch)\<lparr>mon_rxp := 0\<rparr>\<rparr>
               in Some (debug_if (L1_DEB_WARN \<in> debug dch) ''ISAC MON RX overflow!'' dch)
             else
               map_option
                 (\<lambda>dch. if mon_rxp (hw dch) = 1
                         then write_mocr (mocr_upd (\<lambda>m. m OR 0x04) dch)
                         else dch)
                 (mon_rx_store ISAC_MOR0 ''ISAC MOR0 %02x'' buf dch))"

text \<open>Monitor status bit 0x80: a byte received on channel 1 (lines 366 to 392).\<close>

definition mon_rx1 :: "hdr \<Rightarrow> dchannel \<Rightarrow> dchannel option" where
  "mon_rx1 K dch =
     (let dch = mon_rx_alloc K dch
      in case mon_rx (hw dch) of
           None \<Rightarrow>
             let dch = debug_if (L1_DEB_WARN \<in> debug dch) ''ISAC MON RX out of memory!'' dch;
                 dch = mocr_upd (\<lambda>m. m AND 0x0f) dch;
                 dch = mocr_upd (\<lambda>m. m OR 0xa0) dch
             in Some (write_mocr dch)
         | Some buf \<Rightarrow>
             if int (MAX_MON_FRAME K) \<le> mon_rxp (hw dch) then
               let dch = mocr_upd (\<lambda>m. m AND 0x0f) dch;
                   dch = mocr_upd (\<lambda>m. m OR 0xa0) dch;
                   dch = write_mocr dch;
                   dch = dch\<lparr>hw := (hw dch)\<lparr>mon_rxp := 0\<rparr>\<rparr>
               in Some (debug_if (L1_DEB_WARN \<in> debug dch) ''ISAC MON RX overflow!'' dch)
             else
               map_option
                 (\<lambda>dch. write_mocr (mocr_upd (\<lambda>m. m OR 0x40) dch))
                 (mon_rx_store ISAC_MOR1 ''ISAC MOR1 %02x'' buf dch))"

text \<open>Monitor status bits 0x04 and 0x40: end of reception (lines 394 to 407).\<close>

definition mon_rx_end0 :: "dchannel \<Rightarrow> dchannel" where
  "mon_rx_end0 dch =
     (let dch = write_mocr (mocr_upd (\<lambda>m. m AND 0xf0) dch);
          dch = write_mocr (mocr_upd (\<lambda>m. m OR 0x0a) dch)
      in dchannel_sched_event D_RX_MON0 dch)"

definition mon_rx_end1 :: "dchannel \<Rightarrow> dchannel" where
  "mon_rx_end1 dch =
     (let dch = write_mocr (mocr_upd (\<lambda>m. m AND 0x0f) dch);
          dch = write_mocr (mocr_upd (\<lambda>m. m OR 0xa0) dch)
      in dchannel_sched_event D_RX_MON1 dch)"

text \<open>The test \<open>isac->mon_txc && (isac->mon_txp >= isac->mon_txc)\<close>.\<close>

definition mon_tx_done :: "dchannel \<Rightarrow> bool" where
  "mon_tx_done dch = (mon_txc (hw dch) \<noteq> 0 \<and> mon_txc (hw dch) \<le> mon_txp (hw dch))"

text \<open>
  \<open>dch->write_reg(dch->inst.data, r, isac->mon_tx[isac->mon_txp++])\<close> and the debug line.
\<close>

definition mon_tx_put :: "isac_reg \<Rightarrow> string \<Rightarrow> dchannel \<Rightarrow> dchannel option" where
  "mon_tx_put r msg dch =
     (case mon_tx (hw dch) of
        None \<Rightarrow> None
      | Some buf \<Rightarrow>
          if mon_txp (hw dch) < 0 \<or> length buf \<le> nat (mon_txp (hw dch)) then None
          else
            let dch = write_reg r (buf ! nat (mon_txp (hw dch))) dch;
                dch = dch\<lparr>hw := (hw dch)\<lparr>mon_txp := mon_txp (hw dch) + 1\<rparr>\<rparr>
            in Some (debug_if (L1_DEB_MONITOR \<in> debug dch) msg dch))"

text \<open>Monitor status bit 0x02: channel 0 ready to transmit (lines 408 to 430).\<close>

definition mon_tx0 :: "u8 \<Rightarrow> dchannel \<Rightarrow> dchannel option" where
  "mon_tx0 v1 dch =
     (if mon_tx (hw dch) = None \<or> (mon_tx_done dch \<and> v1 AND 0x08 = 0) then
        let dch = write_mocr (mocr_upd (\<lambda>m. m AND 0xf0) dch);
            dch = write_mocr (mocr_upd (\<lambda>m. m OR 0x0a) dch)
        in Some (if mon_tx_done dch then dchannel_sched_event D_TX_MON0 dch else dch)
      else if mon_tx_done dch then Some (dchannel_sched_event D_TX_MON0 dch)
      else mon_tx_put ISAC_MOX0 ''ISAC %02x -> MOX0'' dch)"

text \<open>Monitor status bit 0x20: channel 1 ready to transmit (lines 431 to 453).\<close>

definition mon_tx1 :: "u8 \<Rightarrow> dchannel \<Rightarrow> dchannel option" where
  "mon_tx1 v1 dch =
     (if mon_tx (hw dch) = None \<or> (mon_tx_done dch \<and> v1 AND 0x80 = 0) then
        let dch = write_mocr (mocr_upd (\<lambda>m. m AND 0x0f) dch);
            dch = write_mocr (mocr_upd (\<lambda>m. m OR 0xa0) dch)
        in Some (if mon_tx_done dch then dchannel_sched_event D_TX_MON1 dch else dch)
      else if mon_tx_done dch then Some (dchannel_sched_event D_TX_MON1 dch)
      else mon_tx_put ISAC_MOX1 ''ISAC %02x -> MOX1'' dch)"

text \<open>The monitor block once \<open>v1\<close> has been read from the monitor status register.\<close>

definition isac_mon :: "hdr \<Rightarrow> u8 \<Rightarrow> dchannel \<Rightarrow> dchannel option" where
  "isac_mon K v1 dch =
     Option.bind (if v1 AND 0x08 \<noteq> 0 then mon_rx0 K dch else Some dch) (\<lambda>dch.
     Option.bind (if v1 AND 0x80 \<noteq> 0 then mon_rx1 K dch else Some dch) (\<lambda>dch.
       let dch = (if v1 AND 0x04 \<noteq> 0 then mon_rx_end0 dch else dch);
           dch = (if v1 AND 0x40 \<noteq> 0 then mon_rx_end1 dch else dch)
       in Option.bind (if v1 AND 0x02 \<noteq> 0 then mon_tx0 v1 dch else Some dch) (\<lambda>dch.
            if v1 AND 0x20 \<noteq> 0 then mon_tx1 v1 dch else Some dch)))"

definition isac_mos :: "hdr \<Rightarrow> dchannel \<Rightarrow> dchannel option" where
  "isac_mos K dch =
     (let (v1, dch) = read_reg ISAC_MOSR dch;
          dch = debug_if (L1_DEB_MONITOR \<in> debug dch) ''ISAC MOSR %02x'' dch
      in isac_mon K v1 dch)"

text \<open>EXI, status bit 0x01 (lines 291 to 456).\<close>

definition isac_exi :: "hdr \<Rightarrow> dchannel \<Rightarrow> dchannel option" where
  "isac_exi K dch =
     (let (exval, dch) = read_reg ISAC_EXIR dch;
          dch = debug_if (L1_DEB_WARN \<in> debug dch) ''ISAC EXIR %02x'' dch;
          dch = (if exval AND 0x80 \<noteq> 0
                 then printk ''HiSax: ISAC XMR'' (debugprint ''ISAC XMR'' dch)
                 else dch)
      in Option.bind (if exval AND 0x40 \<noteq> 0 then isac_xdu K dch else Some dch)
           (\<lambda>dch. if exval AND 0x04 \<noteq> 0 then isac_mos K dch else Some dch))"

definition ISAC_interrupt :: "hdr \<Rightarrow> u8 \<Rightarrow> dchannel \<Rightarrow> dchannel option" where
  "ISAC_interrupt K val dch =
     (let dch = debug_if (L1_DEB_ISAC \<in> debug dch) ''ISAC interrupt %x'' dch;
          dch = (if val AND 0x80 \<noteq> 0 then isac_rme K dch else dch);
          dch = (if val AND 0x40 \<noteq> 0 then isac_empty_fifo K 32 dch else dch);
          dch = (if val AND 0x20 \<noteq> 0
                 then debug_if (L1_DEB_WARN \<in> debug dch) ''ISAC RSC interrupt'' dch
                 else dch)
      in Option.bind (if val AND 0x10 \<noteq> 0 then isac_xpr K dch else Some dch) (\<lambda>dch.
           let dch = (if val AND 0x04 \<noteq> 0 then isac_cisq dch else dch);
               dch = (if val AND 0x02 \<noteq> 0
                      then debug_if (L1_DEB_WARN \<in> debug dch) ''ISAC SIN interrupt'' dch
                      else dch)
           in if val AND 0x01 \<noteq> 0 then isac_exi K dch else Some dch))"

subsection \<open>\<open>ISAC_l1hw\<close>: requests from the upper layer\<close>

text \<open>
  \<open>if_newhead\<close> (helper.h) is absent: the call is recorded with the buffer it takes
  over, and its return value is the environment's.
\<close>

definition if_newhead :: "u32 \<Rightarrow> u32 \<Rightarrow> sk_buff \<Rightarrow> dchannel \<Rightarrow> int \<times> dchannel" where
  "if_newhead prim dinfo skb dch = (newhead_ret dch, emit (IfNewhead prim dinfo skb) dch)"

text \<open>The \<open>HW_DEACTIVATE\<close> branch (lines 513 to 523).\<close>

definition l1hw_deactivate :: "dchannel \<Rightarrow> dchannel" where
  "l1hw_deactivate dch =
     (let dch = discard_queue dch;
          dch = (case next_skb dch of
                   Some skb \<Rightarrow> (dev_kfree_skb skb dch)\<lparr>next_skb := None\<rparr>
                 | None \<Rightarrow> dch);
          (nxt, dch) = test_and_clear_bit FLG_TX_NEXT dch;
          (txb, dch) = test_and_clear_bit FLG_TX_BUSY dch
      in dbusy_stop dch)"

text \<open>The \<open>HW_TESTLOOP\<close> branch (lines 525 to 546).\<close>

definition l1hw_testloop :: "u32 \<Rightarrow> dchannel \<Rightarrow> dchannel" where
  "l1hw_testloop dinfo dch =
     (let tl = (if 1 AND dinfo \<noteq> 0 then 0x0c else 0) OR (if 2 AND dinfo \<noteq> 0 then 0x3 else 0)
      in if test_bit HW_IOM1 dch then
           (if tl = 0
            then write_reg ISAC_ADF1 0x2 (write_reg ISAC_SPCR 0xa dch)
            else write_reg ISAC_ADF1 0xa (write_reg ISAC_SPCR tl dch))
         else
           write_reg ISAC_ADF1 (if tl \<noteq> 0 then 0x8 else 0x0) (write_reg ISAC_SPCR tl dch))"

definition l1hw_signal :: "hdr \<Rightarrow> u32 \<Rightarrow> dchannel \<Rightarrow> int \<times> dchannel" where
  "l1hw_signal K dinfo dch =
     (let dch = lock dch;
          (ret, dch) =
            (if dinfo = INFO3_P8 K then (0, ph_command (ISAC_CMD_AR8 K) dch)
             else if dinfo = INFO3_P10 K then (0, ph_command (ISAC_CMD_AR10 K) dch)
             else (- EINVAL, dch))
      in (ret, unlock dch))"

definition l1hw_control :: "hdr \<Rightarrow> u32 \<Rightarrow> dchannel \<Rightarrow> int \<times> dchannel" where
  "l1hw_control K dinfo dch =
     (let dch = lock dch;
          (ret, dch) =
            (if dinfo = HW_RESET K then
               (0, if ph_state dch = ISAC_IND_EI K \<or> ph_state dch = ISAC_IND_DR K
                      \<or> ph_state dch = ISAC_IND_RS K
                   then ph_command (ISAC_CMD_TIM K) dch
                   else ph_command (ISAC_CMD_RS K) dch)
             else if dinfo = HW_POWERUP K then (0, ph_command (ISAC_CMD_TIM K) dch)
             else if dinfo = HW_DEACTIVATE K then (0, l1hw_deactivate dch)
             else if dinfo AND HW_TESTLOOP K = HW_TESTLOOP K then (0, l1hw_testloop dinfo dch)
             else (- EINVAL,
                   debug_if (L1_DEB_WARN \<in> debug dch) ''isac_l1hw unknown ctrl %x'' dch))
      in (ret, unlock dch))"

text \<open>The \<open>PH_DATA_REQ\<close> branch (lines 472 to 491); it returns without reaching line 560.\<close>

definition l1hw_data_req :: "hdr \<Rightarrow> sk_buff \<Rightarrow> dchannel \<Rightarrow> (int \<times> dchannel) option" where
  "l1hw_data_req K skb dch =
     (if next_skb dch \<noteq> None then
        Some (- EBUSY, debugprint '' l2l1 next_skb exist'' dch)
      else
        let dch = lock dch;
            (busy, dch) = test_and_set_bit FLG_TX_BUSY dch
        in if busy then
             let (nxt, dch) = test_and_set_bit FLG_TX_NEXT dch;
                 dch = dch\<lparr>next_skb := Some skb\<rparr>
             in Some (0, unlock dch)
           else
             Option.bind
               (memcpy_tx (skb_data skb) (dch\<lparr>tx_len := int (length (skb_data skb))\<rparr>))
               (\<lambda>dch. map_option
                         (\<lambda>dch. if_newhead (PH_DATA_CNF K) (DINFO_SKB K) skb (unlock dch))
                         (isac_fill_fifo K (dch\<lparr>tx_idx := 0\<rparr>))))"

text \<open>
  \<open>ISAC_l1hw(hif, skb)\<close>; the channel is \<open>hif->fdata\<close>, and \<open>None\<close> for the buffer
  is the NULL pointer. The result is the return value and the channel, or \<open>None\<close> where
  the C is undefined.
\<close>

definition ISAC_l1hw :: "hdr \<Rightarrow> sk_buff option \<Rightarrow> dchannel \<Rightarrow> (int \<times> dchannel) option" where
  "ISAC_l1hw K skbp dch =
     (case skbp of
        None \<Rightarrow> Some (- EINVAL, dch)
      | Some skb \<Rightarrow>
          if hh_prim skb = PH_DATA_REQ K then l1hw_data_req K skb dch
          else
            let (ret, dch) =
                  (if hh_prim skb = PH_SIGNAL K OR REQUEST K then
                     l1hw_signal K (hh_dinfo skb) dch
                   else if hh_prim skb = PH_CONTROL K OR REQUEST K then
                     l1hw_control K (hh_dinfo skb) dch
                   else (- EINVAL,
                         debug_if (L1_DEB_WARN \<in> debug dch) ''isac_l1hw unknown prim %x'' dch))
            in Some (ret, if ret = 0 then dev_kfree_skb skb dch else dch))"

subsection \<open>The busy-recovery timer\<close>

definition dbusy_timer_handler :: "hdr \<Rightarrow> dchannel \<Rightarrow> dchannel" where
  "dbusy_timer_handler K dch =
     (if test_bit FLG_DBUSY_TIMER dch then
        let (taken, dch) = trylock dch
        in if taken then add_timer (dch\<lparr>dbusytimer_expires := jiffies dch + 1\<rparr>)
           else
             let (rbch, dch) = read_reg ISAC_RBCH dch;
                 (star, dch) = read_reg ISAC_STAR dch;
                 dch = (if debug dch \<noteq> {}
                        then debugprint ''D-Channel Busy RBCH %02x STAR %02x'' dch
                        else dch);
                 dch = (if rbch AND ISAC_RBCH_XAC K \<noteq> 0 then
                          snd (test_and_set_bit FLG_L1_DBUSY dch)
                        else
                          let (armed, dch) = test_and_clear_bit FLG_DBUSY_TIMER dch;
                              dch = (if tx_idx dch \<noteq> 0 then dch\<lparr>tx_idx := 0\<rparr>
                                     else debugprint ''D-Channel Busy no tx_idx''
                                            (printk ''HiSax: ISAC D-Channel Busy no tx_idx'' dch))
                          in write_reg ISAC_CMDR 0x01 dch)
             in unlock dch
      else dch)"

section \<open>Reference values and expected results\<close>

text \<open>
  One assignment of the header constants and one idle channel, for evaluating the model
  on concrete inputs. The command and indication codes are those of the chip's C/I code
  table, as the driver's isac.h defines them: \<open>ISAC_IND_ARD\<close> is 0x8, and 0x3 is
  \<open>ISAC_IND_DIS\<close>, a line state for which \<open>isac_new_ph\<close> has no case. The
  values of the primitives and parameters are only chosen distinct.
\<close>

definition hdr0 :: hdr where
  "hdr0 = \<lparr>MAX_DFRAME_LEN_L1 = 300, MAX_MON_FRAME = 32, HZ = 100, ERROR_STATISTIC = True,
     ISAC_RBCH_XAC = 0x80,
     ISAC_CMD_TIM = 0x0, ISAC_CMD_RS = 0x1, ISAC_CMD_AR8 = 0x8, ISAC_CMD_AR10 = 0x9,
     ISAC_CMD_DUI = 0xF,
     ISAC_IND_RS = 0x1, ISAC_IND_EI = 0x6, ISAC_IND_DID = 0xF, ISAC_IND_DR = 0x0,
     ISAC_IND_PU = 0x7, ISAC_IND_RSY = 0x4, ISAC_IND_ARD = 0x8, ISAC_IND_AI8 = 0xC,
     ISAC_IND_AI10 = 0xD,
     PH_DATA_REQ = 0x120, PH_DATA_CNF = 0x121, PH_SIGNAL = 0x200, PH_CONTROL = 0x400,
     REQUEST = 0x80, INDICATION = 0x82, CONFIRM = 0x81, DINFO_SKB = 0xFFFFFFFF,
     HW_RESET = 0x1, HW_POWERUP = 0x2, HW_DEACTIVATE = 0x4, HW_TESTLOOP = 0xFF00,
     INFO3_P8 = 0x308, INFO3_P10 = 0x30a, ANYSIGNAL = 0x1000, INFO2 = 0x2000,
     INFO4_P8 = 0x4008, INFO4_P10 = 0x400a\<rparr>"

definition dch0 :: dchannel where
  "dch0 = \<lparr>DFlags = {}, ph_state = 0, debug = {}, rx_skb = None, next_skb = None,
     tx_buf = map of_nat [0..<40], tx_idx = 0, tx_len = 0, err_crc = 0, err_tx = 0, err_rx = 0,
     hw = \<lparr>mon_tx = None, mon_rx = None, mon_txp = 0, mon_txc = 0, mon_rxp = 0, mocr = 0xaa\<rparr>,
     dbusytimer_expires = 0, dbusytimer_pending = False, event = {}, rqueue = [],
     inst_up = 0, inst_up_next = [], regs = (\<lambda>r. 0), fifo_in = (\<lambda>n. of_nat n), fifo_pos = 0,
     alloc_ok = (\<lambda>n. True), alloc_cnt = 0, lock_taken = False, jiffies = 1000,
     newhead_ret = 0, trace = []\<rparr>"

text \<open>The entry line that both FIFO routines log when only the plain debug bit is set.\<close>

definition pre_log :: "string \<Rightarrow> dchannel \<Rightarrow> io list" where
  "pre_log msg dch =
     (if L1_DEB_ISAC \<in> debug dch \<and> L1_DEB_ISAC_FIFO \<notin> debug dch then [Log msg] else [])"

text \<open>
  The channel after a burst of \<open>n\<close> bytes: the cursor advanced by \<open>n\<close>, the burst and
  its strobe written, the timer (re)armed, after a cancel and a log line when it was armed.
\<close>

definition fill_result :: "hdr \<Rightarrow> dchannel \<Rightarrow> int \<Rightarrow> dchannel" where
  "fill_result K dch n = dch\<lparr>
     tx_idx := tx_idx dch + n,
     DFlags := insert FLG_DBUSY_TIMER (DFlags dch),
     dbusytimer_pending := True,
     dbusytimer_expires := jiffies dch + of_nat ((DBUSY_TIMER_VALUE * HZ K) div 1000),
     trace := trace dch
        @ pre_log ''isac_fill_fifo'' dch
        @ [WriteFifo (take (nat n) (drop (nat (tx_idx dch)) (tx_buf dch))),
           WriteReg ISAC_CMDR (if tx_idx dch + n < tx_len dch then 0x8 else 0xa)]
        @ (if FLG_DBUSY_TIMER \<in> DFlags dch
           then [Log ''isac_fill_fifo dbusytimer running'', DelTimer] else [])
        @ [InitTimer, AddTimer (jiffies dch + of_nat ((DBUSY_TIMER_VALUE * HZ K) div 1000))]
        @ (if L1_DEB_ISAC_FIFO \<in> debug dch then [Log ''isac_fill_fifo cnt %d''] else [])\<rparr>"

text \<open>
  The channel once a payload has been copied to the start of the transmit buffer and the
  cursor reset: the state in which \<open>isac_fill_fifo\<close> is called for a new frame.
\<close>

definition tx_loaded :: "u8 list \<Rightarrow> dchannel \<Rightarrow> dchannel" where
  "tx_loaded payload dch =
     dch\<lparr>tx_len := int (length payload),
         tx_buf := payload @ drop (length payload) (tx_buf dch),
         tx_idx := 0\<rparr>"

text \<open>
  The mapping table of the specification's section 4.3, row by row as it is written there:
  state code to (primitive, parameter), \<open>None\<close> for "no notification issued". Its
  first row gives the reset and error indications the primitive control-confirm.
\<close>

definition table_4_3 :: "hdr \<Rightarrow> u32 \<Rightarrow> (u32 \<times> u32) option" where
  "table_4_3 K st =
     (if st = ISAC_IND_RS K \<or> st = ISAC_IND_EI K then
        Some (PH_CONTROL K OR CONFIRM K, HW_RESET K)
      else if st = ISAC_IND_DID K then Some (PH_CONTROL K OR CONFIRM K, HW_DEACTIVATE K)
      else if st = ISAC_IND_DR K then Some (PH_CONTROL K OR INDICATION K, HW_DEACTIVATE K)
      else if st = ISAC_IND_PU K then Some (PH_CONTROL K OR INDICATION K, HW_POWERUP K)
      else if st = ISAC_IND_RSY K then Some (PH_SIGNAL K OR INDICATION K, ANYSIGNAL K)
      else if st = ISAC_IND_ARD K then Some (PH_SIGNAL K OR INDICATION K, INFO2 K)
      else if st = ISAC_IND_AI8 K then Some (PH_SIGNAL K OR INDICATION K, INFO4_P8 K)
      else if st = ISAC_IND_AI10 K then Some (PH_SIGNAL K OR INDICATION K, INFO4_P10 K)
      else None)"

text \<open>The same table with control-indication in the first row.\<close>

definition ph_indication :: "hdr \<Rightarrow> u32 \<Rightarrow> (u32 \<times> u32) option" where
  "ph_indication K st =
     (if st = ISAC_IND_RS K \<or> st = ISAC_IND_EI K then
        Some (PH_CONTROL K OR INDICATION K, HW_RESET K)
      else table_4_3 K st)"

text \<open>What \<open>isac_new_ph\<close> is expected to do for a line state: nothing for a code outside
  the table; else, for the reset and error indications, the command write under the lock
  first; then the one pair to every upper interface of the chain.\<close>

definition ph_notify :: "hdr \<Rightarrow> dchannel \<Rightarrow> io list" where
  "ph_notify K dch =
     (case ph_indication K (ph_state dch) of
        None \<Rightarrow> []
      | Some (prim, para) \<Rightarrow>
          (if ph_state dch = ISAC_IND_RS K \<or> ph_state dch = ISAC_IND_EI K
           then [Lock] @ (if L1_DEB_ISAC \<in> debug dch then [Log ''ph_command %x''] else [])
                @ [WriteReg ISAC_CIX0 (ucast (push_bit 2 (ISAC_CMD_DUI K) OR 3)), Unlock]
           else [])
          @ map (\<lambda>upif. IfLink upif prim para) (inst_up dch # inst_up_next dch))"


text \<open>The bytes handed to the transmit FIFO in a trace, in order.\<close>

primrec fifo_out :: "io list \<Rightarrow> u8 list" where
  "fifo_out [] = []"
| "fifo_out (e # es) = (case e of WriteFifo bytes \<Rightarrow> bytes | _ \<Rightarrow> []) @ fifo_out es"

text \<open>The calls into the upper layer in a trace.\<close>

primrec upcalls :: "io list \<Rightarrow> io list" where
  "upcalls [] = []"
| "upcalls (e # es) =
     (case e of IfLink i p q \<Rightarrow> [e] | IfNewhead p q s \<Rightarrow> [e] | _ \<Rightarrow> []) @ upcalls es"



text \<open>The bytes written to the monitor transmit data registers in a trace, in order.\<close>

primrec mox_out :: "io list \<Rightarrow> u8 list" where
  "mox_out [] = []"
| "mox_out (e # es) =
     (case e of WriteReg r v \<Rightarrow> (if r = ISAC_MOX0 \<or> r = ISAC_MOX1 then [v] else [])
      | _ \<Rightarrow> []) @ mox_out es"

text \<open>A run of monitor events: the monitor block run on each monitor status value in turn.\<close>

fun mon_run :: "hdr \<Rightarrow> u8 list \<Rightarrow> dchannel \<Rightarrow> dchannel option" where
  "mon_run K [] dch = Some dch"
| "mon_run K (v1 # vs) dch = Option.bind (isac_mon K v1 dch) (mon_run K vs)"

text \<open>
  A monitor transfer of target length \<open>N\<close> from the buffer \<open>buf\<close> is under way: the
  transmit buffer is attached, the target is set and inside the buffer, the cursor is
  between 0 and the target; and the receive side is in bounds (cursor not negative, a
  receive buffer, if any, of at least \<open>MAX_MON_FRAME\<close> bytes).
\<close>

definition mon_inv :: "hdr \<Rightarrow> u8 list \<Rightarrow> int \<Rightarrow> dchannel \<Rightarrow> bool" where
  "mon_inv K buf N dch =
     (mon_tx (hw dch) = Some buf \<and> mon_txc (hw dch) = N \<and> 0 < N \<and> N \<le> int (length buf)
      \<and> 0 \<le> mon_txp (hw dch) \<and> mon_txp (hw dch) \<le> N
      \<and> 0 \<le> mon_rxp (hw dch)
      \<and> (case mon_rx (hw dch) of None \<Rightarrow> True | Some r \<Rightarrow> MAX_MON_FRAME K \<le> length r))"

text \<open>
  What every step of such a transfer keeps: the invariant, and that the bytes written to
  the monitor transmit registers are the bytes of the buffer between the old and the new
  cursor.
\<close>

definition mon_step :: "hdr \<Rightarrow> u8 list \<Rightarrow> int \<Rightarrow> dchannel \<Rightarrow> dchannel \<Rightarrow> bool" where
  "mon_step K buf N dch d =
     (mon_inv K buf N d \<and> mon_txp (hw dch) \<le> mon_txp (hw d)
      \<and> mox_out (trace d) = mox_out (trace dch)
           @ take (nat (mon_txp (hw d) - mon_txp (hw dch))) (drop (nat (mon_txp (hw dch))) buf))"

section \<open>Auxiliary lemmas\<close>

lemma debug_if_eq:
  "debug_if c msg dch = dch\<lparr>trace := trace dch @ (if c then [Log msg] else [])\<rparr>"
  by (simp add: debug_if_def debugprint_def emit_def)

lemmas prim_defs = debug_if_eq debugprint_def printk_def emit_def write_fifo_def write_reg_def
  test_and_set_bit_def test_and_clear_bit_def del_timer_def init_timer_def add_timer_def
  pre_log_def

lemmas ex_defs = hdr0_def dch0_def

subsection \<open>The FIFO routines, case by case\<close>

lemma fill_noop:
  "tx_len dch \<le> tx_idx dch \<Longrightarrow>
   isac_fill_fifo K dch = Some (dch\<lparr>trace := trace dch @ pre_log ''isac_fill_fifo'' dch\<rparr>)"
  by (simp add: isac_fill_fifo_def Let_def prim_defs)

lemma fill_last:
  assumes "tx_idx dch < tx_len dch" "tx_len dch - tx_idx dch \<le> 32" "0 \<le> tx_idx dch"
    "tx_len dch \<le> int (length (tx_buf dch))"
  shows "isac_fill_fifo K dch = Some (fill_result K dch (tx_len dch - tx_idx dch))"
proof (cases "FLG_DBUSY_TIMER \<in> DFlags dch")
  case True
  with assms show ?thesis
    by (simp add: isac_fill_fifo_def fill_result_def Let_def prim_defs)
next
  case False
  with assms show ?thesis
    by (simp add: isac_fill_fifo_def fill_result_def Let_def prim_defs)
qed

lemma fill_more:
  assumes "32 < tx_len dch - tx_idx dch" "0 \<le> tx_idx dch"
    "tx_len dch \<le> int (length (tx_buf dch))"
  shows "isac_fill_fifo K dch = Some (fill_result K dch 32)"
proof (cases "FLG_DBUSY_TIMER \<in> DFlags dch")
  case True
  with assms show ?thesis
    by (simp add: isac_fill_fifo_def fill_result_def Let_def prim_defs)
next
  case False
  with assms show ?thesis
    by (simp add: isac_fill_fifo_def fill_result_def Let_def prim_defs)
qed

lemma fill_some:
  assumes "tx_idx dch < tx_len dch" "0 \<le> tx_idx dch"
    "tx_len dch \<le> int (length (tx_buf dch))"
  shows "isac_fill_fifo K dch = Some (fill_result K dch (min (tx_len dch - tx_idx dch) 32))"
proof (cases "tx_len dch - tx_idx dch \<le> 32")
  case True
  then have "min (tx_len dch - tx_idx dch) 32 = tx_len dch - tx_idx dch" by simp
  with fill_last[OF assms(1) True assms(2,3)] show ?thesis by simp
next
  case False
  then have "min (tx_len dch - tx_idx dch) 32 = 32" by simp
  with fill_more[OF _ assms(2,3)] False show ?thesis by simp
qed

lemma empty_reject:
  assumes "rx_skb dch = Some skb" "MAX_DFRAME_LEN_L1 K \<le> length skb + count"
  shows "isac_empty_fifo K count dch =
     dch\<lparr>trace := trace dch @ pre_log ''isac_empty_fifo'' dch
        @ (if L1_DEB_WARN \<in> debug dch then [Log ''isac_empty_fifo overrun %d''] else [])
        @ [WriteReg ISAC_CMDR 0x80]\<rparr>"
  using assms by (simp add: isac_empty_fifo_def Let_def prim_defs)

lemma empty_accept:
  assumes "rx_skb dch = Some skb" "length skb + count < MAX_DFRAME_LEN_L1 K"
  shows "isac_empty_fifo K count dch =
     dch\<lparr>rx_skb := Some (skb @ map (fifo_in dch) [fifo_pos dch ..< fifo_pos dch + count]),
         fifo_pos := fifo_pos dch + count,
         trace := trace dch @ pre_log ''isac_empty_fifo'' dch
        @ [ReadFifo count, WriteReg ISAC_CMDR 0x80]
        @ (if L1_DEB_ISAC_FIFO \<in> debug dch then [Log ''isac_empty_fifo cnt %d''] else [])\<rparr>"
  using assms by (simp add: isac_empty_fifo_def Let_def prim_defs read_fifo_def)

lemma empty_nomem:
  assumes "rx_skb dch = None" "\<not> alloc_ok dch (alloc_cnt dch)"
  shows "isac_empty_fifo K count dch =
     dch\<lparr>alloc_cnt := alloc_cnt dch + 1,
         trace := trace dch @ pre_log ''isac_empty_fifo'' dch
        @ [Log ''HiSax: D receive out of memory'', WriteReg ISAC_CMDR 0x80]\<rparr>"
  using assms by (simp add: isac_empty_fifo_def Let_def prim_defs alloc_uplink_skb_def)

lemma empty_fresh_accept:
  assumes "rx_skb dch = None" "alloc_ok dch (alloc_cnt dch)" "count < MAX_DFRAME_LEN_L1 K"
  shows "isac_empty_fifo K count dch =
     dch\<lparr>rx_skb := Some (map (fifo_in dch) [fifo_pos dch ..< fifo_pos dch + count]),
         fifo_pos := fifo_pos dch + count,
         alloc_cnt := alloc_cnt dch + 1,
         trace := trace dch @ pre_log ''isac_empty_fifo'' dch
        @ [ReadFifo count, WriteReg ISAC_CMDR 0x80]
        @ (if L1_DEB_ISAC_FIFO \<in> debug dch then [Log ''isac_empty_fifo cnt %d''] else [])\<rparr>"
  using assms
  by (simp add: isac_empty_fifo_def Let_def prim_defs alloc_uplink_skb_def read_fifo_def)

lemma empty_fresh_reject:
  assumes "rx_skb dch = None" "alloc_ok dch (alloc_cnt dch)" "MAX_DFRAME_LEN_L1 K \<le> count"
  shows "isac_empty_fifo K count dch =
     dch\<lparr>rx_skb := Some [],
         alloc_cnt := alloc_cnt dch + 1,
         trace := trace dch @ pre_log ''isac_empty_fifo'' dch
        @ (if L1_DEB_WARN \<in> debug dch then [Log ''isac_empty_fifo overrun %d''] else [])
        @ [WriteReg ISAC_CMDR 0x80]\<rparr>"
  using assms
  by (simp add: isac_empty_fifo_def Let_def prim_defs alloc_uplink_skb_def read_fifo_def)

lemma fill_loaded_Some:
  assumes "length payload \<le> length (tx_buf dch)"
  shows "\<exists>d. isac_fill_fifo K (tx_loaded payload dch) = Some d"
proof (cases "payload = []")
  case True
  then show ?thesis by (simp add: fill_noop tx_loaded_def)
next
  case False
  with assms show ?thesis by (simp add: fill_some tx_loaded_def)
qed

lemma memcpy_tx_loaded:
  "length payload \<le> length (tx_buf dch) \<Longrightarrow>
   Option.bind (memcpy_tx payload (dch\<lparr>tx_len := int (length payload)\<rparr>))
     (\<lambda>d. f (d\<lparr>tx_idx := 0\<rparr>)) = f (tx_loaded payload dch)"
  by (simp add: memcpy_tx_def tx_loaded_def)

subsection \<open>Stopping the busy-recovery timer\<close>

lemmas stop_defs = dbusy_stop_def Let_def dchannel_sched_event_def prim_defs

lemma dbusy_stop_DFlags:
  "DFlags (dbusy_stop dch) = DFlags dch - {FLG_DBUSY_TIMER, FLG_L1_DBUSY}"
  by (auto simp add: stop_defs)

lemma dbusy_stop_pending:
  "dbusytimer_pending (dbusy_stop dch)
     = (FLG_DBUSY_TIMER \<notin> DFlags dch \<and> dbusytimer_pending dch)"
  by (simp add: stop_defs)

lemma dbusy_stop_event:
  "event (dbusy_stop dch)
     = (if FLG_L1_DBUSY \<in> DFlags dch then insert D_CLEARBUSY (event dch) else event dch)"
  by (simp add: stop_defs)

lemma dbusy_stop_trace:
  "trace (dbusy_stop dch) = trace dch
     @ (if FLG_DBUSY_TIMER \<in> DFlags dch then [DelTimer] else [])
     @ (if FLG_L1_DBUSY \<in> DFlags dch then [SchedEvent D_CLEARBUSY] else [])"
  by (simp add: stop_defs)

lemma dbusy_stop_same:
  "tx_idx (dbusy_stop dch) = tx_idx dch"
  "tx_len (dbusy_stop dch) = tx_len dch"
  "tx_buf (dbusy_stop dch) = tx_buf dch"
  "next_skb (dbusy_stop dch) = next_skb dch"
  "rx_skb (dbusy_stop dch) = rx_skb dch"
  "rqueue (dbusy_stop dch) = rqueue dch"
  "debug (dbusy_stop dch) = debug dch"
  "jiffies (dbusy_stop dch) = jiffies dch"
  "hw (dbusy_stop dch) = hw dch"
  "err_tx (dbusy_stop dch) = err_tx dch"
  by (simp_all add: stop_defs)

lemmas dbusy_stop_simps = dbusy_stop_DFlags dbusy_stop_pending dbusy_stop_event
  dbusy_stop_trace dbusy_stop_same

subsection \<open>Deactivation\<close>

lemmas deact_defs = l1hw_deactivate_def Let_def discard_queue_def dev_kfree_skb_def
  test_and_clear_bit_def emit_def

lemma deact_rqueue: "rqueue (l1hw_deactivate dch) = []"
  by (cases "next_skb dch") (simp_all add: deact_defs dbusy_stop_simps)

lemma deact_next_skb: "next_skb (l1hw_deactivate dch) = None"
  by (cases "next_skb dch") (simp_all add: deact_defs dbusy_stop_simps)

lemma deact_DFlags:
  "DFlags (l1hw_deactivate dch)
     = DFlags dch - {FLG_TX_NEXT, FLG_TX_BUSY, FLG_DBUSY_TIMER, FLG_L1_DBUSY}"
  by (cases "next_skb dch") (auto simp add: deact_defs dbusy_stop_simps)

lemma deact_pending:
  "dbusytimer_pending (l1hw_deactivate dch)
     = (FLG_DBUSY_TIMER \<notin> DFlags dch \<and> dbusytimer_pending dch)"
  by (cases "next_skb dch") (simp_all add: deact_defs dbusy_stop_simps)

lemma deact_trace:
  "trace (l1hw_deactivate dch) = trace dch @ map FreeRx (rqueue dch)
       @ (case next_skb dch of Some n \<Rightarrow> [FreeSkb n] | None \<Rightarrow> [])
       @ (if FLG_DBUSY_TIMER \<in> DFlags dch then [DelTimer] else [])
       @ (if FLG_L1_DBUSY \<in> DFlags dch then [SchedEvent D_CLEARBUSY] else [])"
  by (cases "next_skb dch") (simp_all add: deact_defs dbusy_stop_simps)

subsection \<open>The line-state indication\<close>





lemma ph_notify_upd [simp]:
  "ph_notify K (dch\<lparr>trace := t\<rparr>) = ph_notify K dch"
  "ph_notify K (dch\<lparr>event := e\<rparr>) = ph_notify K dch"
  by (simp_all add: ph_notify_def split: option.split prod.split)


subsection \<open>Receive frame end\<close>










subsection \<open>Transmit underrun and transmit ready\<close>

lemma fifo_out_append [simp]: "fifo_out (a @ b) = fifo_out a @ fifo_out b"
  by (induction a) simp_all

lemma upcalls_append [simp]: "upcalls (a @ b) = upcalls a @ upcalls b"
  by (induction a) simp_all













subsection \<open>The monitor channel\<close>

lemma mox_out_append [simp]: "mox_out (a @ b) = mox_out a @ mox_out b"
  by (induction a) simp_all

lemmas mon_defs = mocr_upd_def write_mocr_def write_reg_def dchannel_sched_event_def
  debug_if_eq emit_def

lemma mon_tx0_done:
  assumes "mon_tx (hw dch) = Some buf" "mon_txc (hw dch) \<noteq> 0"
    "mon_txc (hw dch) \<le> mon_txp (hw dch)"
  shows "v1 AND 0x08 = 0 \<Longrightarrow> mon_tx0 v1 dch =
      Some (dch\<lparr>hw := (hw dch)\<lparr>mocr := (mocr (hw dch) AND 0xf0) OR 0x0a\<rparr>,
                event := insert D_TX_MON0 (event dch),
                trace := trace dch @ [WriteReg ISAC_MOCR (mocr (hw dch) AND 0xf0),
                                      WriteReg ISAC_MOCR ((mocr (hw dch) AND 0xf0) OR 0x0a),
                                      SchedEvent D_TX_MON0]\<rparr>)"
    and "v1 AND 0x08 \<noteq> 0 \<Longrightarrow> mon_tx0 v1 dch =
      Some (dch\<lparr>event := insert D_TX_MON0 (event dch),
                trace := trace dch @ [SchedEvent D_TX_MON0]\<rparr>)"
  using assms by (simp_all add: mon_tx0_def mon_tx_done_def Let_def mon_defs)

lemma mon_tx1_done:
  assumes "mon_tx (hw dch) = Some buf" "mon_txc (hw dch) \<noteq> 0"
    "mon_txc (hw dch) \<le> mon_txp (hw dch)"
  shows "v1 AND 0x80 = 0 \<Longrightarrow> mon_tx1 v1 dch =
      Some (dch\<lparr>hw := (hw dch)\<lparr>mocr := (mocr (hw dch) AND 0x0f) OR 0xa0\<rparr>,
                event := insert D_TX_MON1 (event dch),
                trace := trace dch @ [WriteReg ISAC_MOCR (mocr (hw dch) AND 0x0f),
                                      WriteReg ISAC_MOCR ((mocr (hw dch) AND 0x0f) OR 0xa0),
                                      SchedEvent D_TX_MON1]\<rparr>)"
    and "v1 AND 0x80 \<noteq> 0 \<Longrightarrow> mon_tx1 v1 dch =
      Some (dch\<lparr>event := insert D_TX_MON1 (event dch),
                trace := trace dch @ [SchedEvent D_TX_MON1]\<rparr>)"
  using assms by (simp_all add: mon_tx1_def mon_tx_done_def Let_def mon_defs)

lemma mon_tx_put_eq:
  assumes "mon_tx (hw dch) = Some buf" "0 \<le> mon_txp (hw dch)"
    "mon_txp (hw dch) < int (length buf)"
  shows "mon_tx_put r msg dch =
      Some (dch\<lparr>trace := trace dch @ [WriteReg r (buf ! nat (mon_txp (hw dch)))],
                hw := (hw dch)\<lparr>mon_txp := mon_txp (hw dch) + 1\<rparr>,
                trace := trace dch @ [WriteReg r (buf ! nat (mon_txp (hw dch)))]
                  @ (if L1_DEB_MONITOR \<in> debug dch then [Log msg] else [])\<rparr>)"
  using assms by (simp add: mon_tx_put_def Let_def mon_defs)

lemma take1_drop: "i < length xs \<Longrightarrow> take (Suc 0) (drop i xs) = [xs ! i]"
  by (simp add: Cons_nth_drop_Suc [symmetric])

lemma mon_step_refl: "mon_inv K buf N dch \<Longrightarrow> mon_step K buf N dch dch"
  by (simp add: mon_step_def)

lemma mon_step_trans:
  assumes "mon_inv K buf N a" "mon_step K buf N a b" "mon_step K buf N b c"
  shows "mon_step K buf N a c"
proof -
  let ?pa = "mon_txp (hw a)" and ?pb = "mon_txp (hw b)" and ?pc = "mon_txp (hw c)"
  have le: "0 \<le> ?pa" "?pa \<le> ?pb" "?pb \<le> ?pc"
    using assms by (simp_all add: mon_step_def mon_inv_def)
  have n1: "nat (?pc - ?pa) = nat (?pb - ?pa) + nat (?pc - ?pb)"
    using le by simp
  have n2: "nat ?pb = nat ?pa + nat (?pb - ?pa)"
    using le by simp
  have "take (nat (?pb - ?pa)) (drop (nat ?pa) buf)
        @ take (nat (?pc - ?pb)) (drop (nat ?pb) buf)
      = take (nat (?pc - ?pa)) (drop (nat ?pa) buf)"
    by (simp only: n1 n2 take_add drop_drop add.commute)
  with assms le show ?thesis
    by (simp add: mon_step_def)
qed

lemma mon_rx_end0_step:
  "mon_inv K buf N dch \<Longrightarrow> mon_step K buf N dch (mon_rx_end0 dch)"
  by (simp add: mon_step_def mon_inv_def mon_rx_end0_def Let_def mon_defs)

lemma mon_rx_end1_step:
  "mon_inv K buf N dch \<Longrightarrow> mon_step K buf N dch (mon_rx_end1 dch)"
  by (simp add: mon_step_def mon_inv_def mon_rx_end1_def Let_def mon_defs)

lemma mon_tx0_step:
  assumes "mon_inv K buf N dch"
  shows "\<exists>d. mon_tx0 v1 dch = Some d \<and> mon_step K buf N dch d"
proof (cases "mon_txp (hw dch) < N")
  case True
  with assms have p: "mon_tx (hw dch) = Some buf" "0 \<le> mon_txp (hw dch)"
    "mon_txp (hw dch) < int (length buf)"
    by (simp_all add: mon_inv_def)
  from True assms have "mon_tx0 v1 dch = mon_tx_put ISAC_MOX0 ''ISAC %02x -> MOX0'' dch"
    by (simp add: mon_tx0_def mon_tx_done_def mon_inv_def)
  moreover have "nat (mon_txp (hw dch)) < length buf"
    using p by linarith
  ultimately show ?thesis
    using True assms p
    by (simp add: mon_tx_put_eq [OF p] mon_step_def mon_inv_def take1_drop)
next
  case False
  with assms have p: "mon_tx (hw dch) = Some buf" "mon_txc (hw dch) \<noteq> 0"
    "mon_txc (hw dch) \<le> mon_txp (hw dch)"
    by (simp_all add: mon_inv_def)
  show ?thesis
    using assms mon_tx0_done [OF p, of v1]
    by (cases "v1 AND 0x08 = 0") (simp_all add: mon_step_def mon_inv_def)
qed

lemma mon_tx1_step:
  assumes "mon_inv K buf N dch"
  shows "\<exists>d. mon_tx1 v1 dch = Some d \<and> mon_step K buf N dch d"
proof (cases "mon_txp (hw dch) < N")
  case True
  with assms have p: "mon_tx (hw dch) = Some buf" "0 \<le> mon_txp (hw dch)"
    "mon_txp (hw dch) < int (length buf)"
    by (simp_all add: mon_inv_def)
  from True assms have "mon_tx1 v1 dch = mon_tx_put ISAC_MOX1 ''ISAC %02x -> MOX1'' dch"
    by (simp add: mon_tx1_def mon_tx_done_def mon_inv_def)
  moreover have "nat (mon_txp (hw dch)) < length buf"
    using p by linarith
  ultimately show ?thesis
    using True assms p
    by (simp add: mon_tx_put_eq [OF p] mon_step_def mon_inv_def take1_drop)
next
  case False
  with assms have p: "mon_tx (hw dch) = Some buf" "mon_txc (hw dch) \<noteq> 0"
    "mon_txc (hw dch) \<le> mon_txp (hw dch)"
    by (simp_all add: mon_inv_def)
  show ?thesis
    using assms mon_tx1_done [OF p, of v1]
    by (cases "v1 AND 0x80 = 0") (simp_all add: mon_step_def mon_inv_def)
qed

lemma mon_rx_alloc_fields:
  "mon_tx (hw (mon_rx_alloc K dch)) = mon_tx (hw dch)"
  "mon_txc (hw (mon_rx_alloc K dch)) = mon_txc (hw dch)"
  "mon_txp (hw (mon_rx_alloc K dch)) = mon_txp (hw dch)"
  "mocr (hw (mon_rx_alloc K dch)) = mocr (hw dch)"
  "trace (mon_rx_alloc K dch) = trace dch"
  "debug (mon_rx_alloc K dch) = debug dch"
  "event (mon_rx_alloc K dch) = event dch"
  "regs (mon_rx_alloc K dch) = regs dch"
  by (simp_all add: mon_rx_alloc_def kmalloc_def)

lemma mon_rx_alloc_rx:
  "mon_rx (hw (mon_rx_alloc K dch))
     = (case mon_rx (hw dch) of
          Some r \<Rightarrow> Some r
        | None \<Rightarrow> if alloc_ok dch (alloc_cnt dch)
                  then Some (replicate (MAX_MON_FRAME K) 0) else None)"
  "mon_rxp (hw (mon_rx_alloc K dch))
     = (if mon_rx (hw dch) = None \<and> alloc_ok dch (alloc_cnt dch) then 0
        else mon_rxp (hw dch))"
  by (auto simp add: mon_rx_alloc_def kmalloc_def split: option.split)

lemma mon_rx_alloc_inv:
  "mon_inv K buf N dch \<Longrightarrow> mon_inv K buf N (mon_rx_alloc K dch)"
  by (auto simp add: mon_inv_def mon_rx_alloc_fields mon_rx_alloc_rx split: option.splits)

lemma mon_rx_store_eq:
  assumes "0 \<le> mon_rxp (hw dch)" "nat (mon_rxp (hw dch)) < length r"
  shows "mon_rx_store reg msg r dch =
     Some (dch\<lparr>trace := trace dch @ [ReadReg reg],
              hw := (hw dch)\<lparr>mon_rx := Some (r[nat (mon_rxp (hw dch)) := regs dch reg]),
                             mon_rxp := mon_rxp (hw dch) + 1\<rparr>,
              trace := trace dch @ [ReadReg reg]
                @ (if L1_DEB_MONITOR \<in> debug dch then [Log msg] else [])\<rparr>)"
  using assms by (simp add: mon_rx_store_def Let_def read_reg_def mon_defs)

lemma mon_rx0_step_aux:
  assumes "mon_inv K buf N dch"
  shows "\<exists>d. (case mon_rx (hw dch) of
           None \<Rightarrow>
             let dch = debug_if (L1_DEB_WARN \<in> debug dch) ''ISAC MON RX out of memory!'' dch;
                 dch = mocr_upd (\<lambda>m. m AND 0xf0) dch;
                 dch = mocr_upd (\<lambda>m. m OR 0x0a) dch
             in Some (write_mocr dch)
         | Some buf \<Rightarrow>
             if int (MAX_MON_FRAME K) \<le> mon_rxp (hw dch) then
               let dch = mocr_upd (\<lambda>m. m AND 0xf0) dch;
                   dch = mocr_upd (\<lambda>m. m OR 0x0a) dch;
                   dch = write_mocr dch;
                   dch = dch\<lparr>hw := (hw dch)\<lparr>mon_rxp := 0\<rparr>\<rparr>
               in Some (debug_if (L1_DEB_WARN \<in> debug dch) ''ISAC MON RX overflow!'' dch)
             else
               map_option
                 (\<lambda>dch. if mon_rxp (hw dch) = 1
                         then write_mocr (mocr_upd (\<lambda>m. m OR 0x04) dch)
                         else dch)
                 (mon_rx_store ISAC_MOR0 ''ISAC MOR0 %02x'' buf dch)) = Some d
        \<and> mon_step K buf N dch d"
proof (cases "mon_rx (hw dch)")
  case None
  with assms show ?thesis
    by (simp add: Let_def mon_defs mon_step_def mon_inv_def)
next
  case (Some r)
  show ?thesis
  proof (cases "int (MAX_MON_FRAME K) \<le> mon_rxp (hw dch)")
    case True
    with Some assms show ?thesis
      by (simp add: Let_def mon_defs mon_step_def mon_inv_def)
  next
    case False
    with Some assms have b: "0 \<le> mon_rxp (hw dch)" "nat (mon_rxp (hw dch)) < length r"
      by (simp add: mon_inv_def, simp add: mon_inv_def, linarith)
    from Some False assms show ?thesis
      by (simp add: mon_rx_store_eq [OF b] Let_def mon_defs mon_step_def mon_inv_def)
  qed
qed

lemma mon_rx0_step:
  assumes "mon_inv K buf N dch"
  shows "\<exists>d. mon_rx0 K dch = Some d \<and> mon_step K buf N dch d"
proof -
  from mon_rx0_step_aux [OF mon_rx_alloc_inv [OF assms] ]
  obtain d where d: "mon_rx0 K dch = Some d" "mon_step K buf N (mon_rx_alloc K dch) d"
    unfolding mon_rx0_def Let_def by blast
  then show ?thesis
    by (auto simp add: mon_step_def mon_rx_alloc_fields)
qed

lemma mon_rx1_step_aux:
  assumes "mon_inv K buf N dch"
  shows "\<exists>d. (case mon_rx (hw dch) of
           None \<Rightarrow>
             let dch = debug_if (L1_DEB_WARN \<in> debug dch) ''ISAC MON RX out of memory!'' dch;
                 dch = mocr_upd (\<lambda>m. m AND 0x0f) dch;
                 dch = mocr_upd (\<lambda>m. m OR 0xa0) dch
             in Some (write_mocr dch)
         | Some buf \<Rightarrow>
             if int (MAX_MON_FRAME K) \<le> mon_rxp (hw dch) then
               let dch = mocr_upd (\<lambda>m. m AND 0x0f) dch;
                   dch = mocr_upd (\<lambda>m. m OR 0xa0) dch;
                   dch = write_mocr dch;
                   dch = dch\<lparr>hw := (hw dch)\<lparr>mon_rxp := 0\<rparr>\<rparr>
               in Some (debug_if (L1_DEB_WARN \<in> debug dch) ''ISAC MON RX overflow!'' dch)
             else
               map_option
                 (\<lambda>dch. write_mocr (mocr_upd (\<lambda>m. m OR 0x40) dch))
                 (mon_rx_store ISAC_MOR1 ''ISAC MOR1 %02x'' buf dch)) = Some d
        \<and> mon_step K buf N dch d"
proof (cases "mon_rx (hw dch)")
  case None
  with assms show ?thesis
    by (simp add: Let_def mon_defs mon_step_def mon_inv_def)
next
  case (Some r)
  show ?thesis
  proof (cases "int (MAX_MON_FRAME K) \<le> mon_rxp (hw dch)")
    case True
    with Some assms show ?thesis
      by (simp add: Let_def mon_defs mon_step_def mon_inv_def)
  next
    case False
    with Some assms have b: "0 \<le> mon_rxp (hw dch)" "nat (mon_rxp (hw dch)) < length r"
      by (simp add: mon_inv_def, simp add: mon_inv_def, linarith)
    from Some False assms show ?thesis
      by (simp add: mon_rx_store_eq [OF b] Let_def mon_defs mon_step_def mon_inv_def)
  qed
qed

lemma mon_rx1_step:
  assumes "mon_inv K buf N dch"
  shows "\<exists>d. mon_rx1 K dch = Some d \<and> mon_step K buf N dch d"
proof -
  from mon_rx1_step_aux [OF mon_rx_alloc_inv [OF assms] ]
  obtain d where d: "mon_rx1 K dch = Some d" "mon_step K buf N (mon_rx_alloc K dch) d"
    unfolding mon_rx1_def Let_def by blast
  then show ?thesis
    by (auto simp add: mon_step_def mon_rx_alloc_fields)
qed

lemma mon_step_inv: "mon_step K buf N dch d \<Longrightarrow> mon_inv K buf N d"
  by (simp add: mon_step_def)

lemma isac_mon_step:
  assumes "mon_inv K buf N dch"
  shows "\<exists>d. isac_mon K v1 dch = Some d \<and> mon_step K buf N dch d"
proof -
  obtain d1 where d1: "(if v1 AND 0x08 \<noteq> 0 then mon_rx0 K dch else Some dch) = Some d1"
    "mon_step K buf N dch d1"
    using mon_rx0_step [OF assms] mon_step_refl [OF assms] by (cases "v1 AND 0x08 \<noteq> 0") auto
  note i1 = mon_step_inv [OF d1(2)]
  obtain d2 where d2: "(if v1 AND 0x80 \<noteq> 0 then mon_rx1 K d1 else Some d1) = Some d2"
    "mon_step K buf N d1 d2"
    using mon_rx1_step [OF i1] mon_step_refl [OF i1] by (cases "v1 AND 0x80 \<noteq> 0") auto
  note i2 = mon_step_inv [OF d2(2)]
  define d3 where "d3 = (if v1 AND 0x04 \<noteq> 0 then mon_rx_end0 d2 else d2)"
  have s3: "mon_step K buf N d2 d3"
    using mon_rx_end0_step [OF i2] mon_step_refl [OF i2] by (simp add: d3_def)
  note i3 = mon_step_inv [OF s3]
  define d4 where "d4 = (if v1 AND 0x40 \<noteq> 0 then mon_rx_end1 d3 else d3)"
  have s4: "mon_step K buf N d3 d4"
    using mon_rx_end1_step [OF i3] mon_step_refl [OF i3] by (simp add: d4_def)
  note i4 = mon_step_inv [OF s4]
  obtain d5 where d5: "(if v1 AND 0x02 \<noteq> 0 then mon_tx0 v1 d4 else Some d4) = Some d5"
    "mon_step K buf N d4 d5"
    using mon_tx0_step [OF i4] mon_step_refl [OF i4] by (cases "v1 AND 0x02 \<noteq> 0") auto
  note i5 = mon_step_inv [OF d5(2)]
  obtain d6 where d6: "(if v1 AND 0x20 \<noteq> 0 then mon_tx1 v1 d5 else Some d5) = Some d6"
    "mon_step K buf N d5 d6"
    using mon_tx1_step [OF i5] mon_step_refl [OF i5] by (cases "v1 AND 0x20 \<noteq> 0") auto
  have "isac_mon K v1 dch = Some d6"
    unfolding isac_mon_def d1(1) Option.bind.simps d2(1) Let_def d3_def [symmetric]
      d4_def [symmetric] d5(1) d6(1) ..
  moreover have "mon_step K buf N dch d6"
    using d1(2) mon_step_trans [OF assms _ d2(2)]
      mon_step_trans [OF assms _ s3] mon_step_trans [OF assms _ s4]
      mon_step_trans [OF assms _ d5(2)] mon_step_trans [OF assms _ d6(2)]
    by blast
  ultimately show ?thesis by blast
qed

lemma mon_run_step:
  "mon_inv K buf N dch \<Longrightarrow> \<exists>d. mon_run K vs dch = Some d \<and> mon_step K buf N dch d"
proof (induction vs arbitrary: dch)
  case Nil
  then show ?case by (simp add: mon_step_refl)
next
  case (Cons v1 vs)
  from isac_mon_step [OF Cons.prems, of v1]
  obtain d1 where d1: "isac_mon K v1 dch = Some d1" "mon_step K buf N dch d1" by blast
  from Cons.IH [OF mon_step_inv [OF d1(2)] ]
  obtain d where d: "mon_run K vs d1 = Some d" "mon_step K buf N d1 d" by blast
  from d1 d mon_step_trans [OF Cons.prems d1(2) d(2)] show ?case by simp
qed



section \<open>Claims\<close>

text \<open>
  C1. A send-frame request (\<open>PH_DATA_REQ\<close>) handed to \<open>ISAC_l1hw\<close>. When the
  queued-next slot \<open>next_skb\<close> is occupied, the call returns \<open>-EBUSY\<close> (neither 0 nor
  \<open>-EINVAL\<close>) and the channel is unchanged but for a log line: no register is written
  and the buffer is neither queued, handed on nor released, so it stays with the caller.
  When the slot is free and the transmit-busy flag was clear, the flag is set, the payload
  is copied to the start of the transmit buffer, \<open>isac_fill_fifo\<close> runs from cursor 0
  between taking and releasing the lock, and the data confirm is handed upstream with the
  buffer; the call returns what \<open>if_newhead\<close> returns. When the slot is free and
  transmit is busy, the buffer is stored in the slot, the queued-next flag is set, and the
  call returns 0 with nothing but the lock taken and released.
\<close>

theorem C1_send_frame:
  assumes "hh_prim skb = PH_DATA_REQ K"
  shows "(next_skb dch \<noteq> None \<longrightarrow>
        ISAC_l1hw K (Some skb) dch
          = Some (- EBUSY, dch\<lparr>trace := trace dch @ [Log '' l2l1 next_skb exist'']\<rparr>))
    \<and> - EBUSY \<noteq> 0 \<and> - EBUSY \<noteq> - EINVAL
    \<and> (next_skb dch = None \<and> FLG_TX_BUSY \<notin> DFlags dch
        \<and> length (skb_data skb) \<le> length (tx_buf dch) \<longrightarrow>
        (\<exists>d. isac_fill_fifo K
                (tx_loaded (skb_data skb)
                   (dch\<lparr>trace := trace dch @ [Lock],
                        DFlags := insert FLG_TX_BUSY (DFlags dch)\<rparr>)) = Some d
           \<and> ISAC_l1hw K (Some skb) dch
               = Some (newhead_ret dch,
                       d\<lparr>trace := trace d
                            @ [Unlock, IfNewhead (PH_DATA_CNF K) (DINFO_SKB K) skb]\<rparr>))
        \<and> take (length (skb_data skb)) (tx_buf (tx_loaded (skb_data skb) dch)) = skb_data skb)
    \<and> (next_skb dch = None \<and> FLG_TX_BUSY \<in> DFlags dch \<longrightarrow>
        ISAC_l1hw K (Some skb) dch
          = Some (0, dch\<lparr>DFlags := insert FLG_TX_NEXT (DFlags dch),
                          next_skb := Some skb,
                          trace := trace dch @ [Lock, Unlock]\<rparr>))"
proof (intro conjI impI)
  assume "next_skb dch \<noteq> None"
  with assms show "ISAC_l1hw K (Some skb) dch
      = Some (- EBUSY, dch\<lparr>trace := trace dch @ [Log '' l2l1 next_skb exist'']\<rparr>)"
    by (simp add: ISAC_l1hw_def l1hw_data_req_def prim_defs)
next
  show "- EBUSY \<noteq> 0" by (simp add: EBUSY_def)
  show "- EBUSY \<noteq> - EINVAL" by (simp add: EBUSY_def EINVAL_def)
next
  assume a: "next_skb dch = None \<and> FLG_TX_BUSY \<notin> DFlags dch
        \<and> length (skb_data skb) \<le> length (tx_buf dch)"
  let ?d1 = "dch\<lparr>trace := trace dch @ [Lock], DFlags := insert FLG_TX_BUSY (DFlags dch)\<rparr>"
  from a have "length (skb_data skb) \<le> length (tx_buf ?d1)" by simp
  from fill_loaded_Some [OF this, of K]
  obtain d where d: "isac_fill_fifo K (tx_loaded (skb_data skb) ?d1) = Some d" by blast
  have nr: "newhead_ret d = newhead_ret dch"
  proof (cases "skb_data skb = []")
    case True
    with d show ?thesis by (auto simp add: fill_noop tx_loaded_def)
  next
    case False
    with d a show ?thesis by (auto simp add: fill_some tx_loaded_def fill_result_def)
  qed
  have "ISAC_l1hw K (Some skb) dch
      = map_option (\<lambda>dch. if_newhead (PH_DATA_CNF K) (DINFO_SKB K) skb (unlock dch))
          (isac_fill_fifo K (tx_loaded (skb_data skb) ?d1))"
    using assms a
    by (simp add: ISAC_l1hw_def l1hw_data_req_def Let_def lock_def test_and_set_bit_def
        emit_def memcpy_tx_def tx_loaded_def)
  with d nr show "\<exists>d. isac_fill_fifo K (tx_loaded (skb_data skb) ?d1) = Some d
           \<and> ISAC_l1hw K (Some skb) dch
               = Some (newhead_ret dch,
                       d\<lparr>trace := trace d
                            @ [Unlock, IfNewhead (PH_DATA_CNF K) (DINFO_SKB K) skb]\<rparr>)"
    by (simp add: if_newhead_def unlock_def emit_def)
  from a show "take (length (skb_data skb)) (tx_buf (tx_loaded (skb_data skb) dch))
      = skb_data skb"
    by (simp add: tx_loaded_def)
next
  assume "next_skb dch = None \<and> FLG_TX_BUSY \<in> DFlags dch"
  with assms show "ISAC_l1hw K (Some skb) dch
          = Some (0, dch\<lparr>DFlags := insert FLG_TX_NEXT (DFlags dch),
                          next_skb := Some skb,
                          trace := trace dch @ [Lock, Unlock]\<rparr>)"
    by (simp add: ISAC_l1hw_def l1hw_data_req_def Let_def lock_def unlock_def
        test_and_set_bit_def emit_def insert_absorb)
qed

theorem C1_send_frame_witness:
  "hh_prim \<lparr>hh_prim = 0x120, hh_dinfo = 0, skb_data = [1, 2, 3]\<rparr> = PH_DATA_REQ hdr0
   \<and> ISAC_l1hw hdr0 (Some \<lparr>hh_prim = 0x120, hh_dinfo = 0, skb_data = [1, 2, 3]\<rparr>)
        (dch0\<lparr>next_skb := Some \<lparr>hh_prim = 0x120, hh_dinfo = 0, skb_data = [9]\<rparr>\<rparr>)
       = Some (- 16, dch0\<lparr>next_skb := Some \<lparr>hh_prim = 0x120, hh_dinfo = 0, skb_data = [9]\<rparr>,
                          trace := [Log '' l2l1 next_skb exist'']\<rparr>)
   \<and> ISAC_l1hw hdr0 (Some \<lparr>hh_prim = 0x120, hh_dinfo = 0, skb_data = [1, 2, 3]\<rparr>)
        (dch0\<lparr>tx_buf := [0, 0, 0, 0, 0]\<rparr>)
       = Some (0, dch0\<lparr>tx_buf := [1, 2, 3, 0, 0], tx_len := 3, tx_idx := 3,
                       DFlags := {FLG_DBUSY_TIMER, FLG_TX_BUSY},
                       dbusytimer_pending := True, dbusytimer_expires := 1008,
                       trace := [Lock, WriteFifo [1, 2, 3], WriteReg ISAC_CMDR 0xa,
                                 InitTimer, AddTimer 1008, Unlock,
                                 IfNewhead 0x121 0xFFFFFFFF
                                   \<lparr>hh_prim = 0x120, hh_dinfo = 0, skb_data = [1, 2, 3]\<rparr>]\<rparr>)
   \<and> ISAC_l1hw hdr0 (Some \<lparr>hh_prim = 0x120, hh_dinfo = 0, skb_data = [1, 2, 3]\<rparr>)
        (dch0\<lparr>DFlags := {FLG_TX_BUSY}\<rparr>)
       = Some (0, dch0\<lparr>DFlags := {FLG_TX_NEXT, FLG_TX_BUSY},
                       next_skb := Some \<lparr>hh_prim = 0x120, hh_dinfo = 0, skb_data = [1, 2, 3]\<rparr>,
                       trace := [Lock, Unlock]\<rparr>)"
  using C1_send_frame [of "\<lparr>hh_prim = 0x120, hh_dinfo = 0, skb_data = [1, 2, 3]\<rparr>" hdr0
      "dch0\<lparr>next_skb := Some \<lparr>hh_prim = 0x120, hh_dinfo = 0, skb_data = [9]\<rparr>\<rparr>"]
    C1_send_frame [of "\<lparr>hh_prim = 0x120, hh_dinfo = 0, skb_data = [1, 2, 3]\<rparr>" hdr0
      "dch0\<lparr>tx_buf := [0, 0, 0, 0, 0]\<rparr>"]
    C1_send_frame [of "\<lparr>hh_prim = 0x120, hh_dinfo = 0, skb_data = [1, 2, 3]\<rparr>" hdr0
      "dch0\<lparr>DFlags := {FLG_TX_BUSY}\<rparr>"]
  by (simp add: ex_defs EBUSY_def tx_loaded_def isac_fill_fifo_def Let_def prim_defs
      DBUSY_TIMER_VALUE_def)

text \<open>
  C2. Every call of \<open>isac_fill_fifo\<close> with no byte left in the transmit buffer
  (\<open>tx_len \<le> tx_idx\<close>) changes nothing (it only logs its entry line when that debug bit
  is set). Otherwise, with the cursor inside the buffer, it transfers
  \<open>n = min (tx_len - tx_idx) 32\<close> bytes, never more than 32, advances the cursor by
  exactly \<open>n\<close> (the channel afterwards is \<open>fill_result\<close>), writes the strobe 0x8 to
  the command register when bytes remain after the
  transfer and 0xa when none remain, and (re)arms the busy-recovery timer, after cancelling
  it and logging when it was already armed.
\<close>

theorem C2_fill_fifo_burst:
  "(tx_len dch \<le> tx_idx dch \<longrightarrow>
      isac_fill_fifo K dch = Some (dch\<lparr>trace := trace dch @ pre_log ''isac_fill_fifo'' dch\<rparr>))
   \<and> (tx_idx dch < tx_len dch \<and> 0 \<le> tx_idx dch \<and> tx_len dch \<le> int (length (tx_buf dch)) \<longrightarrow>
        isac_fill_fifo K dch = Some (fill_result K dch (min (tx_len dch - tx_idx dch) 32))
      \<and> tx_idx (fill_result K dch (min (tx_len dch - tx_idx dch) 32))
          = tx_idx dch + min (tx_len dch - tx_idx dch) 32
      \<and> int (length (take (nat (min (tx_len dch - tx_idx dch) 32))
                       (drop (nat (tx_idx dch)) (tx_buf dch))))
          = min (tx_len dch - tx_idx dch) 32
      \<and> 0 < min (tx_len dch - tx_idx dch) 32
      \<and> min (tx_len dch - tx_idx dch) 32 \<le> 32)"
proof (intro conjI impI)
  assume "tx_len dch \<le> tx_idx dch"
  then show "isac_fill_fifo K dch =
      Some (dch\<lparr>trace := trace dch @ pre_log ''isac_fill_fifo'' dch\<rparr>)"
    by (rule fill_noop)
next
  assume a: "tx_idx dch < tx_len dch \<and> 0 \<le> tx_idx dch
    \<and> tx_len dch \<le> int (length (tx_buf dch))"
  then show "isac_fill_fifo K dch
      = Some (fill_result K dch (min (tx_len dch - tx_idx dch) 32))"
    by (simp add: fill_some)
  show "tx_idx (fill_result K dch (min (tx_len dch - tx_idx dch) 32))
          = tx_idx dch + min (tx_len dch - tx_idx dch) 32"
    by (simp add: fill_result_def)
  show "int (length (take (nat (min (tx_len dch - tx_idx dch) 32))
                       (drop (nat (tx_idx dch)) (tx_buf dch))))
          = min (tx_len dch - tx_idx dch) 32"
    using a by (auto simp add: min_def)
  show "0 < min (tx_len dch - tx_idx dch) 32"
    using a by simp
  show "min (tx_len dch - tx_idx dch) 32 \<le> 32"
    by simp
qed

theorem C2_fill_fifo_burst_witness:
  "isac_fill_fifo hdr0 (dch0\<lparr>tx_len := 40, tx_idx := 40\<rparr>) = Some (dch0\<lparr>tx_len := 40, tx_idx := 40\<rparr>)
   \<and> isac_fill_fifo hdr0 (dch0\<lparr>tx_len := 40\<rparr>) =
       Some (dch0\<lparr>tx_len := 40, tx_idx := 32, DFlags := {FLG_DBUSY_TIMER},
               dbusytimer_pending := True, dbusytimer_expires := 1008,
               trace := [WriteFifo (map of_nat [0..<32]), WriteReg ISAC_CMDR 0x8,
                         InitTimer, AddTimer 1008]\<rparr>)
   \<and> isac_fill_fifo hdr0 (dch0\<lparr>tx_len := 40, tx_idx := 32, DFlags := {FLG_DBUSY_TIMER}\<rparr>) =
       Some (dch0\<lparr>tx_len := 40, tx_idx := 40, DFlags := {FLG_DBUSY_TIMER},
               dbusytimer_pending := True, dbusytimer_expires := 1008,
               trace := [WriteFifo (map of_nat [32..<40]), WriteReg ISAC_CMDR 0xa,
                         Log ''isac_fill_fifo dbusytimer running'', DelTimer,
                         InitTimer, AddTimer 1008]\<rparr>)"
  using C2_fill_fifo_burst [of "dch0\<lparr>tx_len := 40, tx_idx := 40\<rparr>" hdr0]
    C2_fill_fifo_burst [of "dch0\<lparr>tx_len := 40\<rparr>" hdr0]
    C2_fill_fifo_burst [of "dch0\<lparr>tx_len := 40, tx_idx := 32, DFlags := {FLG_DBUSY_TIMER}\<rparr>" hdr0]
  by (simp add: ex_defs fill_result_def pre_log_def DBUSY_TIMER_VALUE_def take_map drop_map)




text \<open>
  C4. \<open>isac_empty_fifo\<close> rejects every count that would make the receive buffer reach
  or exceed \<open>MAX_DFRAME_LEN_L1\<close>: it writes the FIFO-reset strobe 0x80 and reads nothing,
  so the bytes are dropped and the buffer keeps its length and content. The same flush
  happens, after a single allocation attempt, when there is no receive buffer and the
  allocation fails. On the accepted path exactly \<open>count\<close> bytes are read from the FIFO
  and appended at the end of the buffer, then the strobe 0x80 is written; a buffer
  allocated by the call starts empty.
\<close>

theorem C4_empty_fifo_drain:
  "(rx_skb dch = Some skb \<and> MAX_DFRAME_LEN_L1 K \<le> length skb + count \<longrightarrow>
      isac_empty_fifo K count dch =
        dch\<lparr>trace := trace dch @ pre_log ''isac_empty_fifo'' dch
          @ (if L1_DEB_WARN \<in> debug dch then [Log ''isac_empty_fifo overrun %d''] else [])
          @ [WriteReg ISAC_CMDR 0x80]\<rparr>)
   \<and> (rx_skb dch = None \<and> \<not> alloc_ok dch (alloc_cnt dch) \<longrightarrow>
      isac_empty_fifo K count dch =
        dch\<lparr>alloc_cnt := alloc_cnt dch + 1,
            trace := trace dch @ pre_log ''isac_empty_fifo'' dch
              @ [Log ''HiSax: D receive out of memory'', WriteReg ISAC_CMDR 0x80]\<rparr>)
   \<and> (rx_skb dch = Some skb \<and> length skb + count < MAX_DFRAME_LEN_L1 K \<longrightarrow>
      isac_empty_fifo K count dch =
        dch\<lparr>rx_skb := Some (skb @ map (fifo_in dch) [fifo_pos dch ..< fifo_pos dch + count]),
            fifo_pos := fifo_pos dch + count,
            trace := trace dch @ pre_log ''isac_empty_fifo'' dch
              @ [ReadFifo count, WriteReg ISAC_CMDR 0x80]
              @ (if L1_DEB_ISAC_FIFO \<in> debug dch then [Log ''isac_empty_fifo cnt %d''] else [])\<rparr>
      \<and> length (skb @ map (fifo_in dch) [fifo_pos dch ..< fifo_pos dch + count])
          = length skb + count)
   \<and> (rx_skb dch = None \<and> alloc_ok dch (alloc_cnt dch) \<and> count < MAX_DFRAME_LEN_L1 K \<longrightarrow>
      isac_empty_fifo K count dch =
        dch\<lparr>rx_skb := Some (map (fifo_in dch) [fifo_pos dch ..< fifo_pos dch + count]),
            fifo_pos := fifo_pos dch + count,
            alloc_cnt := alloc_cnt dch + 1,
            trace := trace dch @ pre_log ''isac_empty_fifo'' dch
              @ [ReadFifo count, WriteReg ISAC_CMDR 0x80]
              @ (if L1_DEB_ISAC_FIFO \<in> debug dch then [Log ''isac_empty_fifo cnt %d''] else [])\<rparr>)
   \<and> (rx_skb dch = None \<and> alloc_ok dch (alloc_cnt dch) \<and> MAX_DFRAME_LEN_L1 K \<le> count \<longrightarrow>
      isac_empty_fifo K count dch =
        dch\<lparr>rx_skb := Some [],
            alloc_cnt := alloc_cnt dch + 1,
            trace := trace dch @ pre_log ''isac_empty_fifo'' dch
              @ (if L1_DEB_WARN \<in> debug dch then [Log ''isac_empty_fifo overrun %d''] else [])
              @ [WriteReg ISAC_CMDR 0x80]\<rparr>)"
  by (simp add: empty_reject empty_nomem empty_accept empty_fresh_accept empty_fresh_reject)

theorem C4_empty_fifo_drain_witness:
  "isac_empty_fifo hdr0 32 (dch0\<lparr>rx_skb := Some (replicate 268 7)\<rparr>) =
     dch0\<lparr>rx_skb := Some (replicate 268 7), trace := [WriteReg ISAC_CMDR 0x80]\<rparr>
   \<and> isac_empty_fifo hdr0 32 (dch0\<lparr>alloc_ok := (\<lambda>n. False)\<rparr>) =
     dch0\<lparr>alloc_ok := (\<lambda>n. False), alloc_cnt := 1,
          trace := [Log ''HiSax: D receive out of memory'', WriteReg ISAC_CMDR 0x80]\<rparr>
   \<and> isac_empty_fifo hdr0 3 (dch0\<lparr>rx_skb := Some [9, 8]\<rparr>) =
     dch0\<lparr>rx_skb := Some ([9, 8] @ map of_nat [0..<3]), fifo_pos := 3,
          trace := [ReadFifo 3, WriteReg ISAC_CMDR 0x80]\<rparr>
   \<and> isac_empty_fifo hdr0 3 dch0 =
     dch0\<lparr>rx_skb := Some (map of_nat [0..<3]), fifo_pos := 3, alloc_cnt := 1,
          trace := [ReadFifo 3, WriteReg ISAC_CMDR 0x80]\<rparr>
   \<and> isac_empty_fifo (hdr0\<lparr>MAX_DFRAME_LEN_L1 := 3\<rparr>) 3 dch0 =
     dch0\<lparr>rx_skb := Some [], alloc_cnt := 1, trace := [WriteReg ISAC_CMDR 0x80]\<rparr>"
  using C4_empty_fifo_drain [of "dch0\<lparr>rx_skb := Some (replicate 268 7)\<rparr>" "replicate 268 7" hdr0 32]
    C4_empty_fifo_drain [of "dch0\<lparr>alloc_ok := (\<lambda>n. False)\<rparr>" "[]" hdr0 32]
    C4_empty_fifo_drain [of "dch0\<lparr>rx_skb := Some [9, 8]\<rparr>" "[9, 8]" hdr0 3]
    C4_empty_fifo_drain [of dch0 "[]" hdr0 3]
    C4_empty_fifo_drain [of dch0 "[]" "hdr0\<lparr>MAX_DFRAME_LEN_L1 := 3\<rparr>" 3]
  by (simp add: ex_defs pre_log_def)






text \<open>
  C7. An expiry of the busy-recovery timer while the armed flag \<open>FLG_DBUSY_TIMER\<close> is
  set: when the non-blocking lock attempt fails, the handler sets the expiry one tick
  ahead, adds the timer again and does nothing else. Otherwise it reads the registers
  RBCH and STAR and takes exactly one of two actions: with the \<open>ISAC_RBCH_XAC\<close> bit set
  in RBCH it sets the link-busy flag \<open>FLG_L1_DBUSY\<close> and leaves the timer as it is (not
  added again); with the bit clear it clears the armed flag, has the transmit cursor at 0
  and writes the transmitter reset 0x01 to the command register. With the armed flag clear
  it accesses no register and changes nothing.
\<close>

theorem C7_dbusy_timer_expiry:
  "(FLG_DBUSY_TIMER \<notin> DFlags dch \<longrightarrow> dbusy_timer_handler K dch = dch)
   \<and> (FLG_DBUSY_TIMER \<in> DFlags dch \<and> lock_taken dch \<longrightarrow>
        dbusy_timer_handler K dch =
          dch\<lparr>dbusytimer_expires := jiffies dch + 1,
              dbusytimer_pending := True,
              trace := trace dch @ [TryLock False, AddTimer (jiffies dch + 1)]\<rparr>)
   \<and> (FLG_DBUSY_TIMER \<in> DFlags dch \<and> \<not> lock_taken dch
        \<and> regs dch ISAC_RBCH AND ISAC_RBCH_XAC K \<noteq> 0 \<longrightarrow>
        dbusy_timer_handler K dch =
          dch\<lparr>DFlags := insert FLG_L1_DBUSY (DFlags dch),
              trace := trace dch @ [TryLock True, ReadReg ISAC_RBCH, ReadReg ISAC_STAR]
                @ (if debug dch \<noteq> {} then [Log ''D-Channel Busy RBCH %02x STAR %02x''] else [])
                @ [Unlock]\<rparr>)
   \<and> (FLG_DBUSY_TIMER \<in> DFlags dch \<and> \<not> lock_taken dch
        \<and> regs dch ISAC_RBCH AND ISAC_RBCH_XAC K = 0 \<longrightarrow>
        dbusy_timer_handler K dch =
          dch\<lparr>DFlags := DFlags dch - {FLG_DBUSY_TIMER},
              tx_idx := 0,
              trace := trace dch @ [TryLock True, ReadReg ISAC_RBCH, ReadReg ISAC_STAR]
                @ (if debug dch \<noteq> {} then [Log ''D-Channel Busy RBCH %02x STAR %02x''] else [])
                @ (if tx_idx dch = 0
                   then [Log ''HiSax: ISAC D-Channel Busy no tx_idx'',
                         Log ''D-Channel Busy no tx_idx'']
                   else [])
                @ [WriteReg ISAC_CMDR 0x01, Unlock]\<rparr>)"
proof (intro conjI impI)
  assume "FLG_DBUSY_TIMER \<notin> DFlags dch"
  then show "dbusy_timer_handler K dch = dch"
    by (simp add: dbusy_timer_handler_def test_bit_def)
next
  assume "FLG_DBUSY_TIMER \<in> DFlags dch \<and> lock_taken dch"
  then show "dbusy_timer_handler K dch =
          dch\<lparr>dbusytimer_expires := jiffies dch + 1,
              dbusytimer_pending := True,
              trace := trace dch @ [TryLock False, AddTimer (jiffies dch + 1)]\<rparr>"
    by (simp add: dbusy_timer_handler_def test_bit_def trylock_def prim_defs)
next
  assume "FLG_DBUSY_TIMER \<in> DFlags dch \<and> \<not> lock_taken dch
        \<and> regs dch ISAC_RBCH AND ISAC_RBCH_XAC K \<noteq> 0"
  then show "dbusy_timer_handler K dch =
          dch\<lparr>DFlags := insert FLG_L1_DBUSY (DFlags dch),
              trace := trace dch @ [TryLock True, ReadReg ISAC_RBCH, ReadReg ISAC_STAR]
                @ (if debug dch \<noteq> {} then [Log ''D-Channel Busy RBCH %02x STAR %02x''] else [])
                @ [Unlock]\<rparr>"
    by (simp add: dbusy_timer_handler_def test_bit_def trylock_def read_reg_def unlock_def
        prim_defs)
next
  assume a: "FLG_DBUSY_TIMER \<in> DFlags dch \<and> \<not> lock_taken dch
        \<and> regs dch ISAC_RBCH AND ISAC_RBCH_XAC K = 0"
  show "dbusy_timer_handler K dch =
          dch\<lparr>DFlags := DFlags dch - {FLG_DBUSY_TIMER},
              tx_idx := 0,
              trace := trace dch @ [TryLock True, ReadReg ISAC_RBCH, ReadReg ISAC_STAR]
                @ (if debug dch \<noteq> {} then [Log ''D-Channel Busy RBCH %02x STAR %02x''] else [])
                @ (if tx_idx dch = 0
                   then [Log ''HiSax: ISAC D-Channel Busy no tx_idx'',
                         Log ''D-Channel Busy no tx_idx'']
                   else [])
                @ [WriteReg ISAC_CMDR 0x01, Unlock]\<rparr>"
  proof (cases "tx_idx dch = 0")
    case True
    with a show ?thesis
      by (simp add: dbusy_timer_handler_def test_bit_def trylock_def read_reg_def unlock_def
          prim_defs)
  next
    case False
    with a show ?thesis
      by (simp add: dbusy_timer_handler_def test_bit_def trylock_def read_reg_def unlock_def
          prim_defs)
  qed
qed

theorem C7_dbusy_timer_expiry_witness:
  "dbusy_timer_handler hdr0 (dch0\<lparr>tx_idx := 5\<rparr>) = dch0\<lparr>tx_idx := 5\<rparr>
   \<and> dbusy_timer_handler hdr0 (dch0\<lparr>DFlags := {FLG_DBUSY_TIMER}, lock_taken := True\<rparr>) =
       dch0\<lparr>DFlags := {FLG_DBUSY_TIMER}, lock_taken := True, dbusytimer_expires := 1001,
            dbusytimer_pending := True, trace := [TryLock False, AddTimer 1001]\<rparr>
   \<and> dbusy_timer_handler hdr0
        (dch0\<lparr>DFlags := {FLG_DBUSY_TIMER}, tx_idx := 5, regs := (\<lambda>r. 0x80)\<rparr>) =
       dch0\<lparr>DFlags := {FLG_L1_DBUSY, FLG_DBUSY_TIMER}, tx_idx := 5, regs := (\<lambda>r. 0x80),
            trace := [TryLock True, ReadReg ISAC_RBCH, ReadReg ISAC_STAR, Unlock]\<rparr>
   \<and> dbusy_timer_handler hdr0 (dch0\<lparr>DFlags := {FLG_DBUSY_TIMER}, tx_idx := 5\<rparr>) =
       dch0\<lparr>DFlags := {}, tx_idx := 0,
            trace := [TryLock True, ReadReg ISAC_RBCH, ReadReg ISAC_STAR,
                      WriteReg ISAC_CMDR 0x01, Unlock]\<rparr>"
  using C7_dbusy_timer_expiry [of "dch0\<lparr>tx_idx := 5\<rparr>" hdr0]
    C7_dbusy_timer_expiry [of "dch0\<lparr>DFlags := {FLG_DBUSY_TIMER}, lock_taken := True\<rparr>" hdr0]
    C7_dbusy_timer_expiry
      [of "dch0\<lparr>DFlags := {FLG_DBUSY_TIMER}, tx_idx := 5, regs := (\<lambda>r. 0x80)\<rparr>" hdr0]
    C7_dbusy_timer_expiry [of "dch0\<lparr>DFlags := {FLG_DBUSY_TIMER}, tx_idx := 5\<rparr>" hdr0]
  by (simp add: ex_defs)

text \<open>
  C8. A control request with the parameter \<open>HW_DEACTIVATE\<close> returns 0 and leaves the
  channel with the armed flag of the busy-recovery timer clear (the timer is deleted when
  the flag was set), the queued next frame released and its slot and flag clear, the
  transmit-busy flag clear and the receive completion queue empty (the emptying of the
  queue is what the absent \<open>discard_queue\<close> is modelled to do).
\<close>

theorem C8_deactivate_clears:
  assumes "hh_prim skb = PH_CONTROL K OR REQUEST K"
    and "PH_CONTROL K OR REQUEST K \<noteq> PH_DATA_REQ K"
    and "PH_CONTROL K OR REQUEST K \<noteq> PH_SIGNAL K OR REQUEST K"
    and "hh_dinfo skb = HW_DEACTIVATE K"
    and "HW_DEACTIVATE K \<noteq> HW_RESET K"
    and "HW_DEACTIVATE K \<noteq> HW_POWERUP K"
  shows "\<exists>d. ISAC_l1hw K (Some skb) dch = Some (0, d)
    \<and> FLG_DBUSY_TIMER \<notin> DFlags d
    \<and> dbusytimer_pending d = (FLG_DBUSY_TIMER \<notin> DFlags dch \<and> dbusytimer_pending dch)
    \<and> next_skb d = None
    \<and> FLG_TX_NEXT \<notin> DFlags d
    \<and> FLG_TX_BUSY \<notin> DFlags d
    \<and> rqueue d = []
    \<and> trace d = trace dch @ [Lock] @ map FreeRx (rqueue dch)
         @ (case next_skb dch of Some n \<Rightarrow> [FreeSkb n] | None \<Rightarrow> [])
         @ (if FLG_DBUSY_TIMER \<in> DFlags dch then [DelTimer] else [])
         @ (if FLG_L1_DBUSY \<in> DFlags dch then [SchedEvent D_CLEARBUSY] else [])
         @ [Unlock, FreeSkb skb]"
proof -
  have "ISAC_l1hw K (Some skb) dch
      = Some (0, dev_kfree_skb skb (unlock (l1hw_deactivate (lock dch))))"
    using assms by (simp add: ISAC_l1hw_def l1hw_control_def Let_def)
  then show ?thesis
    by (simp add: deact_rqueue deact_next_skb deact_DFlags deact_pending deact_trace
        lock_def unlock_def dev_kfree_skb_def emit_def)
qed

theorem C8_deactivate_clears_witness:
  "PH_CONTROL hdr0 OR REQUEST hdr0 = 0x480
   \<and> PH_CONTROL hdr0 OR REQUEST hdr0 \<noteq> PH_DATA_REQ hdr0
   \<and> PH_CONTROL hdr0 OR REQUEST hdr0 \<noteq> PH_SIGNAL hdr0 OR REQUEST hdr0
   \<and> HW_DEACTIVATE hdr0 = 0x4
   \<and> HW_DEACTIVATE hdr0 \<noteq> HW_RESET hdr0
   \<and> HW_DEACTIVATE hdr0 \<noteq> HW_POWERUP hdr0
   \<and> (\<exists>d. ISAC_l1hw hdr0 (Some \<lparr>hh_prim = 0x480, hh_dinfo = 0x4, skb_data = []\<rparr>)
          (dch0\<lparr>DFlags := {FLG_TX_BUSY, FLG_TX_NEXT, FLG_DBUSY_TIMER},
                dbusytimer_pending := True,
                next_skb := Some \<lparr>hh_prim = 0x120, hh_dinfo = 0, skb_data = [1, 2]\<rparr>,
                rqueue := [ [5], [6, 7] ]\<rparr>) = Some (0, d)
        \<and> FLG_DBUSY_TIMER \<notin> DFlags d \<and> \<not> dbusytimer_pending d \<and> next_skb d = None
        \<and> FLG_TX_NEXT \<notin> DFlags d \<and> FLG_TX_BUSY \<notin> DFlags d \<and> rqueue d = []
        \<and> trace d = [Lock, FreeRx [5], FreeRx [6, 7],
                      FreeSkb \<lparr>hh_prim = 0x120, hh_dinfo = 0, skb_data = [1, 2]\<rparr>,
                      DelTimer, Unlock,
                      FreeSkb \<lparr>hh_prim = 0x480, hh_dinfo = 0x4, skb_data = []\<rparr>])"
  using C8_deactivate_clears [of "\<lparr>hh_prim = 0x480, hh_dinfo = 0x4, skb_data = []\<rparr>" hdr0
      "dch0\<lparr>DFlags := {FLG_TX_BUSY, FLG_TX_NEXT, FLG_DBUSY_TIMER},
            dbusytimer_pending := True,
            next_skb := Some \<lparr>hh_prim = 0x120, hh_dinfo = 0, skb_data = [1, 2]\<rparr>,
            rqueue := [ [5], [6, 7] ]\<rparr>"]
  by (simp add: ex_defs)

text \<open>
  C9, as amended. The two monitor sub-channels share one transmit buffer, cursor and target
  length. Once the cursor has reached a non-zero target length \<open>N\<close> (\<open>N\<close> bytes
  written), a transmit-ready event of either sub-channel writes no byte to the monitor
  transmit data register and schedules that sub-channel's transmit-complete tag, once per
  event: the code keeps no record of having done so, and a later transmit-ready event
  schedules the tag again. The event disables the sub-channel's transmit direction through
  the shadow control value (two writes of the monitor control register) when the same
  monitor status byte does not carry that sub-channel's receive-byte bit, and leaves the
  control value alone when it does. Over every run of monitor events of a transfer of
  target length \<open>N\<close> the bytes written to the transmit data registers are the bytes of
  the buffer from the old cursor to the new one, and the cursor never passes \<open>N\<close>: no
  byte beyond the \<open>N\<close>-th is written.
\<close>

theorem C9_monitor_transmit_complete:
  "(mon_tx (hw dch) = Some buf \<and> mon_txc (hw dch) \<noteq> 0
      \<and> mon_txc (hw dch) \<le> mon_txp (hw dch) \<longrightarrow>
        (v1 AND 0x08 = 0 \<longrightarrow> mon_tx0 v1 dch =
           Some (dch\<lparr>hw := (hw dch)\<lparr>mocr := (mocr (hw dch) AND 0xf0) OR 0x0a\<rparr>,
                     event := insert D_TX_MON0 (event dch),
                     trace := trace dch
                       @ [WriteReg ISAC_MOCR (mocr (hw dch) AND 0xf0),
                          WriteReg ISAC_MOCR ((mocr (hw dch) AND 0xf0) OR 0x0a),
                          SchedEvent D_TX_MON0]\<rparr>))
      \<and> (v1 AND 0x08 \<noteq> 0 \<longrightarrow> mon_tx0 v1 dch =
           Some (dch\<lparr>event := insert D_TX_MON0 (event dch),
                     trace := trace dch @ [SchedEvent D_TX_MON0]\<rparr>))
      \<and> (v1 AND 0x80 = 0 \<longrightarrow> mon_tx1 v1 dch =
           Some (dch\<lparr>hw := (hw dch)\<lparr>mocr := (mocr (hw dch) AND 0x0f) OR 0xa0\<rparr>,
                     event := insert D_TX_MON1 (event dch),
                     trace := trace dch
                       @ [WriteReg ISAC_MOCR (mocr (hw dch) AND 0x0f),
                          WriteReg ISAC_MOCR ((mocr (hw dch) AND 0x0f) OR 0xa0),
                          SchedEvent D_TX_MON1]\<rparr>))
      \<and> (v1 AND 0x80 \<noteq> 0 \<longrightarrow> mon_tx1 v1 dch =
           Some (dch\<lparr>event := insert D_TX_MON1 (event dch),
                     trace := trace dch @ [SchedEvent D_TX_MON1]\<rparr>)))
   \<and> (mon_inv K buf N dch \<longrightarrow>
        (\<exists>d. mon_run K vs dch = Some d
           \<and> mon_txp (hw dch) \<le> mon_txp (hw d) \<and> mon_txp (hw d) \<le> N
           \<and> mox_out (trace d) = mox_out (trace dch)
                @ take (nat (mon_txp (hw d) - mon_txp (hw dch)))
                    (drop (nat (mon_txp (hw dch))) buf)))"
proof (intro conjI impI)
  assume a: "mon_tx (hw dch) = Some buf \<and> mon_txc (hw dch) \<noteq> 0
      \<and> mon_txc (hw dch) \<le> mon_txp (hw dch)"
  then have p: "mon_tx (hw dch) = Some buf" "mon_txc (hw dch) \<noteq> 0"
    "mon_txc (hw dch) \<le> mon_txp (hw dch)"
    by simp_all
  {
    assume "v1 AND 0x08 = 0"
    then show "mon_tx0 v1 dch =
           Some (dch\<lparr>hw := (hw dch)\<lparr>mocr := (mocr (hw dch) AND 0xf0) OR 0x0a\<rparr>,
                     event := insert D_TX_MON0 (event dch),
                     trace := trace dch
                       @ [WriteReg ISAC_MOCR (mocr (hw dch) AND 0xf0),
                          WriteReg ISAC_MOCR ((mocr (hw dch) AND 0xf0) OR 0x0a),
                          SchedEvent D_TX_MON0]\<rparr>)"
      by (rule mon_tx0_done (1) [OF p])
  }
  {
    assume "v1 AND 0x08 \<noteq> 0"
    then show "mon_tx0 v1 dch =
           Some (dch\<lparr>event := insert D_TX_MON0 (event dch),
                     trace := trace dch @ [SchedEvent D_TX_MON0]\<rparr>)"
      by (rule mon_tx0_done (2) [OF p])
  }
  {
    assume "v1 AND 0x80 = 0"
    then show "mon_tx1 v1 dch =
           Some (dch\<lparr>hw := (hw dch)\<lparr>mocr := (mocr (hw dch) AND 0x0f) OR 0xa0\<rparr>,
                     event := insert D_TX_MON1 (event dch),
                     trace := trace dch
                       @ [WriteReg ISAC_MOCR (mocr (hw dch) AND 0x0f),
                          WriteReg ISAC_MOCR ((mocr (hw dch) AND 0x0f) OR 0xa0),
                          SchedEvent D_TX_MON1]\<rparr>)"
      by (rule mon_tx1_done (1) [OF p])
  }
  {
    assume "v1 AND 0x80 \<noteq> 0"
    then show "mon_tx1 v1 dch =
           Some (dch\<lparr>event := insert D_TX_MON1 (event dch),
                     trace := trace dch @ [SchedEvent D_TX_MON1]\<rparr>)"
      by (rule mon_tx1_done (2) [OF p])
  }
next
  assume "mon_inv K buf N dch"
  from mon_run_step [OF this, of vs]
  show "\<exists>d. mon_run K vs dch = Some d
           \<and> mon_txp (hw dch) \<le> mon_txp (hw d) \<and> mon_txp (hw d) \<le> N
           \<and> mox_out (trace d) = mox_out (trace dch)
                @ take (nat (mon_txp (hw d) - mon_txp (hw dch)))
                    (drop (nat (mon_txp (hw dch))) buf)"
    by (auto simp add: mon_step_def mon_inv_def)
qed

text \<open>
  A transfer of the two bytes 7 and 8 followed by four transmit-ready events of
  sub-channel 0: the two bytes are written, nothing more.
\<close>

theorem C9_monitor_transmit_complete_witness:
  "mon_inv hdr0 [7, 8] 2 (dch0\<lparr>hw := (hw dch0)\<lparr>mon_tx := Some [7, 8], mon_txc := 2\<rparr>\<rparr>)
   \<and> (\<exists>d. mon_run hdr0 [0x02, 0x02, 0x02, 0x02]
              (dch0\<lparr>hw := (hw dch0)\<lparr>mon_tx := Some [7, 8], mon_txc := 2\<rparr>\<rparr>) = Some d
         \<and> mon_txp (hw d) \<le> 2
         \<and> mox_out (trace d) = take (nat (mon_txp (hw d))) [7, 8])
   \<and> mon_tx0 0x02
        (dch0\<lparr>hw := (hw dch0)\<lparr>mon_tx := Some [7, 8], mon_txc := 2, mon_txp := 2,
                                 mocr := 0xab\<rparr>\<rparr>)
       = Some (dch0\<lparr>hw := (hw dch0)\<lparr>mon_tx := Some [7, 8], mon_txc := 2, mon_txp := 2,
                                       mocr := 0xaa\<rparr>,
                     event := {D_TX_MON0},
                     trace := [WriteReg ISAC_MOCR 0xa0, WriteReg ISAC_MOCR 0xaa,
                               SchedEvent D_TX_MON0]\<rparr>)"
proof -
  let ?A = "dch0\<lparr>hw := (hw dch0)\<lparr>mon_tx := Some [7, 8], mon_txc := 2\<rparr>\<rparr>"
  let ?B = "dch0\<lparr>hw := (hw dch0)\<lparr>mon_tx := Some [7, 8], mon_txc := 2, mon_txp := 2,
                                  mocr := 0xab\<rparr>\<rparr>"
  have inv: "mon_inv hdr0 [7, 8] 2 ?A"
    by (simp add: ex_defs mon_inv_def)
  have fin: "mon_tx (hw ?B) = Some [7, 8] \<and> mon_txc (hw ?B) \<noteq> 0
      \<and> mon_txc (hw ?B) \<le> mon_txp (hw ?B)"
    by (simp add: ex_defs)
  note tA = C9_monitor_transmit_complete
      [where dch = ?A and K = hdr0 and buf = "[7, 8]" and N = 2
         and vs = "[0x02, 0x02, 0x02, 0x02]" and ?v1.0 = "0x02"]
  note tB = C9_monitor_transmit_complete
      [where dch = ?B and K = hdr0 and buf = "[7, 8]" and N = 2 and vs = "[]"
         and ?v1.0 = "0x02"]
  have w1: "\<exists>d. mon_run hdr0 [0x02, 0x02, 0x02, 0x02] ?A = Some d
         \<and> mon_txp (hw d) \<le> 2
         \<and> mox_out (trace d) = take (nat (mon_txp (hw d))) [7, 8]"
    using tA inv by (clarsimp simp add: ex_defs simp del: mon_run.simps)
  have w2: "mon_tx0 0x02 ?B
       = Some (dch0\<lparr>hw := (hw dch0)\<lparr>mon_tx := Some [7, 8], mon_txc := 2, mon_txp := 2,
                                       mocr := 0xaa\<rparr>,
                     event := {D_TX_MON0},
                     trace := [WriteReg ISAC_MOCR 0xa0, WriteReg ISAC_MOCR 0xaa,
                               SchedEvent D_TX_MON0]\<rparr>)"
    using tB fin by (simp add: ex_defs)
  from inv w1 w2 show ?thesis by simp
qed

text \<open>
  C9 as stated fails twice. With the transfer complete (one byte of one written) and the
  receive-byte bit 0x08 in the same status byte as the transmit-ready bit 0x02, the
  transmit direction of sub-channel 0 is not disabled: the control value stays 0xab and
  the control register is not written. And two transmit-ready events of sub-channel 1
  after completion, each followed by the bottom half, notify transmit-complete twice.
\<close>

theorem C9_counterexample:
  "mon_tx0 0x0a
     (dch0\<lparr>hw := (hw dch0)\<lparr>mon_tx := Some [7], mon_txc := 1, mon_txp := 1, mocr := 0xab\<rparr>\<rparr>)
    = Some (dch0\<lparr>hw := (hw dch0)\<lparr>mon_tx := Some [7], mon_txc := 1, mon_txp := 1,
                                    mocr := 0xab\<rparr>,
                  event := {D_TX_MON0}, trace := [SchedEvent D_TX_MON0]\<rparr>)
   \<and> Option.bind
        (isac_mon hdr0 0x20
           (dch0\<lparr>hw := (hw dch0)\<lparr>mon_tx := Some [7], mon_txc := 1, mon_txp := 1\<rparr>,
                 DFlags := {HW_ARCOFI}\<rparr>))
        (\<lambda>d. map_option (\<lambda>d. trace (isac_hwbh hdr0 d))
                (isac_mon hdr0 0x20 (isac_hwbh hdr0 d)))
      = Some [WriteReg ISAC_MOCR 0x0a, WriteReg ISAC_MOCR 0xaa, SchedEvent D_TX_MON1,
              ArcofiFsm ARCOFI_TX_END,
              WriteReg ISAC_MOCR 0x0a, WriteReg ISAC_MOCR 0xaa, SchedEvent D_TX_MON1,
              ArcofiFsm ARCOFI_TX_END]"
  by (simp add: ex_defs isac_mon_def mon_tx0_def mon_tx1_def mon_tx_done_def isac_hwbh_def
      test_and_clear_event_def test_bit_def arcofi_fsm_def Let_def mon_defs)

text \<open>
  C10. The claim holds for sub-channel 0 and fails for sub-channel 1. The receive block of
  sub-channel 0 sets the ready sub-bit 0x04 and writes the monitor control register only
  when the byte just stored was the first (\<open>if (isac->mon_rxp == 1)\<close>, line 360); the
  receive block of sub-channel 1 has no such test (lines 390 and 391) and sets 0x40 and
  writes the register after every byte. Evaluated on a receive buffer that already holds
  one byte, with the ready sub-bits already set in the shadow value 0xee: an interrupt with
  monitor status 0x08 (sub-channel 0) stores the second byte and writes no control
  register; the same interrupt with monitor status 0x80 (sub-channel 1) stores the second
  byte and writes the control register again.
\<close>

theorem C10_mon_rx1_ready_on_every_byte:
  "map_option (\<lambda>d. (mon_rxp (hw d), mon_rx (hw d), trace d))
     (ISAC_interrupt hdr0 0x01
        (dch0\<lparr>hw := (hw dch0)\<lparr>mon_rx := Some [7, 0, 0, 0], mon_rxp := 1, mocr := 0xee\<rparr>,
              regs := (\<lambda>r. if r = ISAC_EXIR then 0x04 else if r = ISAC_MOSR then 0x08
                            else 0x55)\<rparr>))
     = Some (2, Some [7, 0x55, 0, 0],
             [ReadReg ISAC_EXIR, ReadReg ISAC_MOSR, ReadReg ISAC_MOR0])
   \<and> map_option (\<lambda>d. (mon_rxp (hw d), mon_rx (hw d), trace d))
     (ISAC_interrupt hdr0 0x01
        (dch0\<lparr>hw := (hw dch0)\<lparr>mon_rx := Some [7, 0, 0, 0], mon_rxp := 1, mocr := 0xee\<rparr>,
              regs := (\<lambda>r. if r = ISAC_EXIR then 0x04 else if r = ISAC_MOSR then 0x80
                            else 0x55)\<rparr>))
     = Some (2, Some [7, 0x55, 0, 0],
             [ReadReg ISAC_EXIR, ReadReg ISAC_MOSR, ReadReg ISAC_MOR1,
              WriteReg ISAC_MOCR 0xee])"
  by (simp add: ex_defs ISAC_interrupt_def isac_exi_def isac_mos_def isac_mon_def
      mon_rx0_def mon_rx1_def mon_rx_alloc_def mon_rx_store_def read_reg_def Let_def
      mon_defs)

end
